theory Spec2Isabelle
  imports Complex_Main "HOL-Library.Sublist"
begin

section \<open>Tensors of the inference notebooks\<close>

text \<open>
  The two notebooks (the 4-days-in/10-days-out one and \<^verbatim>\<open>inference_2_1.ipynb\<close>) work on
  torch tensors of floating-point numbers. An entry is either NaN or a finite number;
  finite numbers are taken as reals, so rounding and the infinities are left out. A tensor
  is its shape and its entries in row-major order, as torch stores a contiguous tensor.
\<close>

datatype fval = NaN | Fin real

record 'a tensor =
  shape :: "nat list"
  entries :: "'a list"

datatype error =
    IndexError
  | KeyError string
  | AttributeError string
  | NameError string
  | TypeError
  | ShapeError
  | External string

definition numel :: "nat list \<Rightarrow> nat" where
  "numel sh = prod_list sh"

definition well_shaped :: "'a tensor \<Rightarrow> bool" where
  "well_shaped t \<longleftrightarrow> length (entries t) = numel (shape t)"

definition tmap :: "('a \<Rightarrow> 'b) \<Rightarrow> 'a tensor \<Rightarrow> 'b tensor" where
  "tmap f t = \<lparr>shape = shape t, entries = map f (entries t)\<rparr>"

fun is_nan :: "fval \<Rightarrow> bool" where
  "is_nan NaN = True"
| "is_nan (Fin r) = False"

text \<open>\<^verbatim>\<open>torch.isnan(y)\<close>: the boolean tensor of the shape of \<open>y\<close>.\<close>

definition isnan :: "fval tensor \<Rightarrow> bool tensor" where
  "isnan y = tmap is_nan y"

text \<open>
  \<^verbatim>\<open>t[m] = v\<close> for a boolean tensor \<open>m\<close> and a zero-dimensional value \<open>v\<close>. The shape
  of \<open>m\<close> has to be a prefix of the shape of \<open>t\<close>; an entry of \<open>m\<close> then stands for the
  block of \<open>t\<close> below it (a single entry when the shapes are equal). Any other mask raises
  IndexError.
\<close>

definition index_put_bool :: "'a tensor \<Rightarrow> bool tensor \<Rightarrow> 'a \<Rightarrow> error + 'a tensor" where
  "index_put_bool t m v =
     (if prefix (shape m) (shape t) then
        let blk = numel (drop (length (shape m)) (shape t)) in
        Inr \<lparr>shape = shape t,
             entries = map (\<lambda>k. if entries m ! (k div blk) then v else entries t ! k)
                           [0..<length (entries t)]\<rparr>
      else Inl IndexError)"

text \<open>\<^verbatim>\<open>y_hat[torch.isnan(y)] = torch.tensor(float('nan'))\<close>\<close>

definition mask_prediction :: "fval tensor \<Rightarrow> fval tensor \<Rightarrow> error + fval tensor" where
  "mask_prediction y_hat y = index_put_bool y_hat (isnan y) NaN"

section \<open>The pickled list of test-set files\<close>

text \<open>
  The decimal digits of a non-negative integer, and Python's format specification \<^verbatim>\<open>02\<close>
  of an f-string field \<^verbatim>\<open>{x:02}\<close>: the sign, if any, comes first, and zeros fill the field
  up to two characters.
\<close>

definition digit :: "nat \<Rightarrow> char" where
  "digit d = ''0123456789'' ! d"

fun decimal :: "nat \<Rightarrow> string" where
  "decimal n = (if n < 10 then [digit n] else decimal (n div 10) @ [digit (n mod 10)])"

definition zero_fill :: "nat \<Rightarrow> string \<Rightarrow> string" where
  "zero_fill w ds = replicate (w - length ds) (CHR ''0'') @ ds"

definition format_02 :: "int \<Rightarrow> string" where
  "format_02 x =
     (if x < 0 then CHR ''-'' # zero_fill 1 (decimal (nat (- x)))
      else zero_fill 2 (decimal (nat x)))"

text \<open>\<^verbatim>\<open>range(lo, hi)\<close>\<close>

definition py_range :: "int \<Rightarrow> int \<Rightarrow> int list" where
  "py_range lo hi = [lo..hi - 1]"

text \<open>
  \<^verbatim>\<open>[f'/nvme0/fwi-reanalysis/ECMWF_FWI_201904{x:02}_1200_hr_fwi_e5.nc' for x in range(1, 14)]\<close>
  in the 4-in/10-out notebook, and
  \<^verbatim>\<open>[f'./deepfwi-mini-sample/fwi-reanalysis/ECMWF_FWI_201912{x:02}_1200_hr_fwi_e5.nc'
     for x in range(1, 3)]\<close> in the 2-in/1-out notebook.
\<close>

definition test_out_files_4_10 :: "string list" where
  "test_out_files_4_10 =
     map (\<lambda>x. ''/nvme0/fwi-reanalysis/ECMWF_FWI_201904'' @ format_02 x @ ''_1200_hr_fwi_e5.nc'')
         (py_range 1 14)"

definition test_out_files_2_1 :: "string list" where
  "test_out_files_2_1 =
     map (\<lambda>x. ''./deepfwi-mini-sample/fwi-reanalysis/ECMWF_FWI_201912'' @ format_02 x
               @ ''_1200_hr_fwi_e5.nc'')
         (py_range 1 3)"

text \<open>
  What the description of the data says about a file: its name is
  \<^verbatim>\<open>ECMWF_FWI_<YYYYMMDD>_1200_hr_fwi_e5.nc\<close> for a calendar day. The name of a file is
  what follows the last slash of its path.
\<close>

record date =
  year :: nat
  month :: nat
  day :: nat

definition days_in_month :: "nat \<Rightarrow> nat \<Rightarrow> nat" where
  "days_in_month y m =
     (if m = 2 then
        (if y mod 400 = 0 then 29 else if y mod 100 = 0 then 28
         else if y mod 4 = 0 then 29 else 28)
      else if m \<in> {4, 6, 9, 11} then 30 else 31)"

definition valid_date :: "date \<Rightarrow> bool" where
  "valid_date d \<longleftrightarrow> 1 \<le> month d \<and> month d \<le> 12 \<and> 1 \<le> day d
                    \<and> day d \<le> days_in_month (year d) (month d)"

definition next_day :: "date \<Rightarrow> date" where
  "next_day d =
     (if day d < days_in_month (year d) (month d) then d\<lparr>day := day d + 1\<rparr>
      else if month d < 12 then d\<lparr>month := month d + 1, day := 1\<rparr>
      else \<lparr>year = year d + 1, month = 1, day = 1\<rparr>)"

fun consecutive_days :: "date \<Rightarrow> nat \<Rightarrow> date list" where
  "consecutive_days d 0 = []"
| "consecutive_days d (Suc n) = d # consecutive_days (next_day d) n"

definition yyyymmdd :: "date \<Rightarrow> string" where
  "yyyymmdd d = zero_fill 4 (decimal (year d)) @ zero_fill 2 (decimal (month d))
                 @ zero_fill 2 (decimal (day d))"

definition fwi_file_name :: "date \<Rightarrow> string" where
  "fwi_file_name d = ''ECMWF_FWI_'' @ yyyymmdd d @ ''_1200_hr_fwi_e5.nc''"

definition file_name :: "string \<Rightarrow> string" where
  "file_name path = rev (takeWhile (\<lambda>c. c \<noteq> CHR ''/'') (rev path))"

section \<open>Indexing, slicing and the case-study region\<close>

text \<open>Sequencing of steps that can raise: the first error ends the computation.\<close>

definition ebind :: "error + 'a \<Rightarrow> ('a \<Rightarrow> error + 'b) \<Rightarrow> error + 'b" where
  "ebind r f = (case r of Inl e \<Rightarrow> Inl e | Inr v \<Rightarrow> f v)"

text \<open>
  The row-major position of a multi-index, and the entry of a tensor at a multi-index.
\<close>

definition offset :: "nat list \<Rightarrow> nat list \<Rightarrow> nat" where
  "offset sh idx = foldl (\<lambda>acc (n, i). acc * n + i) 0 (zip sh idx)"

definition entry_at :: "'a tensor \<Rightarrow> nat list \<Rightarrow> 'a" where
  "entry_at t idx = entries t ! offset (shape t) idx"

text \<open>\<^verbatim>\<open>t[i]\<close> for an index \<open>i \<ge> 0\<close>: the sub-tensor \<open>i\<close> of the first dimension.\<close>

definition select0 :: "'a tensor \<Rightarrow> nat \<Rightarrow> error + 'a tensor" where
  "select0 t i =
     (case shape t of
        [] \<Rightarrow> Inl IndexError
      | n # rest \<Rightarrow>
          if i < n then
            Inr \<lparr>shape = rest, entries = take (numel rest) (drop (i * numel rest) (entries t))\<rparr>
          else Inl IndexError)"

text \<open>
  The positions a slice \<^verbatim>\<open>a:b\<close> (both bounds non-negative) selects in a dimension of
  size \<open>n\<close>: Python clamps both bounds to \<open>n\<close>.
\<close>

definition slice_range :: "nat \<Rightarrow> nat \<Rightarrow> nat \<Rightarrow> nat list" where
  "slice_range a b n = [min a n..<min b n]"

text \<open>
  \<^verbatim>\<open>t[a:b, c:d]\<close> slices the first two dimensions and \<^verbatim>\<open>t[:, a:b, c:d]\<close> the second
  and third; a tensor with fewer dimensions raises IndexError, further dimensions are kept
  whole.
\<close>

definition slice_rows_cols :: "nat \<Rightarrow> nat \<Rightarrow> nat \<Rightarrow> nat \<Rightarrow> 'a tensor \<Rightarrow> error + 'a tensor" where
  "slice_rows_cols a b c d t =
     (case shape t of
        H # W # rest \<Rightarrow>
          let rs = slice_range a b H; cs = slice_range c d W; blk = numel rest in
          Inr \<lparr>shape = length rs # length cs # rest,
               entries = concat (map (\<lambda>r. concat (map (\<lambda>c.
                           take blk (drop ((r * W + c) * blk) (entries t))) cs)) rs)\<rparr>
      | _ \<Rightarrow> Inl IndexError)"

definition slice_all_rows_cols :: "nat \<Rightarrow> nat \<Rightarrow> nat \<Rightarrow> nat \<Rightarrow> 'a tensor \<Rightarrow> error + 'a tensor" where
  "slice_all_rows_cols a b c d t =
     (case shape t of
        D # H # W # rest \<Rightarrow>
          let rs = slice_range a b H; cs = slice_range c d W; blk = numel rest in
          Inr \<lparr>shape = D # length rs # length cs # rest,
               entries = concat (map (\<lambda>n. concat (map (\<lambda>r. concat (map (\<lambda>c.
                           take blk (drop (((n * H + r) * W + c) * blk) (entries t))) cs)) rs))
                           [0..<D])\<rparr>
      | _ \<Rightarrow> Inl IndexError)"

text \<open>
  The case-study cell of the 4-in/10-out notebook:
  \<^verbatim>\<open>
  y_case = y[0][:, 355:480, 400:550]
  y_hat_case = y_hat[0][:, 355:480, 400:550]
  mask_case = model.data.mask[355:480, 400:550]
  \<close>
  and of the 2-in/1-out notebook:
  \<^verbatim>\<open>
  y_case = y[0][0][355:480, 400:550]
  y_hat_case = y_hat[0][0][355:480, 400:550]
  mask_case = model.data.mask[355:480, 400:550]
  \<close>
  Each statement is a function of the tensor it slices; a cell is its three statements.
\<close>

definition case_slice_days :: "'a tensor \<Rightarrow> error + 'a tensor" where
  "case_slice_days t = ebind (select0 t 0) (slice_all_rows_cols 355 480 400 550)"

definition case_slice_one :: "'a tensor \<Rightarrow> error + 'a tensor" where
  "case_slice_one t =
     ebind (select0 t 0) (\<lambda>t0. ebind (select0 t0 0) (slice_rows_cols 355 480 400 550))"

definition case_slice_mask :: "'a tensor \<Rightarrow> error + 'a tensor" where
  "case_slice_mask m = slice_rows_cols 355 480 400 550 m"

definition case_study_4_10 ::
  "fval tensor \<Rightarrow> fval tensor \<Rightarrow> bool tensor \<Rightarrow> error + fval tensor \<times> fval tensor \<times> bool tensor"
where
  "case_study_4_10 y y_hat msk =
     ebind (case_slice_days y) (\<lambda>y_case.
     ebind (case_slice_days y_hat) (\<lambda>y_hat_case.
     ebind (case_slice_mask msk) (\<lambda>mask_case.
     Inr (y_case, y_hat_case, mask_case))))"

definition case_study_2_1 ::
  "fval tensor \<Rightarrow> fval tensor \<Rightarrow> bool tensor \<Rightarrow> error + fval tensor \<times> fval tensor \<times> bool tensor"
where
  "case_study_2_1 y y_hat msk =
     ebind (case_slice_one y) (\<lambda>y_case.
     ebind (case_slice_one y_hat) (\<lambda>y_hat_case.
     ebind (case_slice_mask msk) (\<lambda>mask_case.
     Inr (y_case, y_hat_case, mask_case))))"

section \<open>The accuracy shown with a prediction\<close>

text \<open>
  Arithmetic on entries: NaN propagates through subtraction, absolute value, addition and
  scaling, and every comparison with NaN is false.
\<close>

fun fsub :: "fval \<Rightarrow> fval \<Rightarrow> fval" where
  "fsub (Fin a) (Fin b) = Fin (a - b)"
| "fsub _ _ = NaN"

fun fadd :: "fval \<Rightarrow> fval \<Rightarrow> fval" where
  "fadd (Fin a) (Fin b) = Fin (a + b)"
| "fadd _ _ = NaN"

fun fabs :: "fval \<Rightarrow> fval" where
  "fabs (Fin a) = Fin \<bar>a\<bar>"
| "fabs NaN = NaN"

fun fless :: "fval \<Rightarrow> real \<Rightarrow> bool" where
  "fless (Fin a) c = (a < c)"
| "fless NaN c = False"

fun fscale :: "fval \<Rightarrow> real \<Rightarrow> fval" where
  "fscale (Fin a) c = Fin (a * c)"
| "fscale NaN c = NaN"

text \<open>
  \<^verbatim>\<open>a - b\<close> on tensors of one shape. (torch also broadcasts shapes that differ but are
  compatible; the notebooks subtract a prediction from a ground truth of the same shape,
  and any other pair of shapes is reported as an error here.)
\<close>

definition tsub :: "fval tensor \<Rightarrow> fval tensor \<Rightarrow> error + fval tensor" where
  "tsub a b =
     (if shape a = shape b then
        Inr \<lparr>shape = shape a, entries = map (\<lambda>(u, v). fsub u v) (zip (entries a) (entries b))\<rparr>
      else Inl ShapeError)"

text \<open>\<^verbatim>\<open>t.abs()\<close>, \<^verbatim>\<open>t < c\<close> and \<^verbatim>\<open>t.float()\<close> of a boolean tensor.\<close>

definition tabs :: "fval tensor \<Rightarrow> fval tensor" where
  "tabs t = tmap fabs t"

definition tless :: "fval tensor \<Rightarrow> real \<Rightarrow> bool tensor" where
  "tless t c = tmap (\<lambda>v. fless v c) t"

definition to_float :: "bool tensor \<Rightarrow> fval tensor" where
  "to_float t = tmap (\<lambda>b. Fin (if b then 1 else 0)) t"

text \<open>\<^verbatim>\<open>t.squeeze()\<close> drops every dimension of size one.\<close>

definition squeeze :: "'a tensor \<Rightarrow> 'a tensor" where
  "squeeze t = \<lparr>shape = filter (\<lambda>n. n \<noteq> 1) (shape t), entries = entries t\<rparr>"

text \<open>
  \<^verbatim>\<open>t[m]\<close> for a boolean tensor \<open>m\<close>: the blocks of \<open>t\<close> that \<open>m\<close> selects, in order, as
  a tensor with one leading dimension. As for the assignment, the shape of \<open>m\<close> has to be
  a prefix of the shape of \<open>t\<close>.
\<close>

definition index_bool :: "'a tensor \<Rightarrow> bool tensor \<Rightarrow> error + 'a tensor" where
  "index_bool t m =
     (if prefix (shape m) (shape t) then
        let rest = drop (length (shape m)) (shape t); blk = numel rest in
        Inr \<lparr>shape = length (filter (\<lambda>b. b) (entries m)) # rest,
             entries = map (\<lambda>k. entries t ! k)
                           (filter (\<lambda>k. entries m ! (k div blk)) [0..<length (entries t)])\<rparr>
      else Inl IndexError)"

text \<open>
  \<^verbatim>\<open>m.expand_as(y)\<close> where the shape of \<open>y\<close> ends with the shape of \<open>m\<close>: the entries of
  \<open>m\<close> are repeated for the leading dimensions of \<open>y\<close>. (torch also stretches dimensions
  of size one of \<open>m\<close>; this is not needed for a mask of the shape of the grid and is
  reported as an error here.)
\<close>

definition expand_as :: "'a tensor \<Rightarrow> 'b tensor \<Rightarrow> error + 'a tensor" where
  "expand_as m y =
     (if suffix (shape m) (shape y) then
        Inr \<lparr>shape = shape y,
             entries = concat (replicate
                         (numel (take (length (shape y) - length (shape m)) (shape y)))
                         (entries m))\<rparr>
      else Inl ShapeError)"

text \<open>\<^verbatim>\<open>t.mean()\<close>: NaN for a tensor without entries.\<close>

definition mean :: "fval tensor \<Rightarrow> fval" where
  "mean t =
     (if entries t = [] then NaN
      else fscale (foldl fadd (Fin 0) (entries t)) (1 / real (length (entries t))))"

text \<open>
  The accuracy in the title of the prediction of day \<open>i\<close> in the 4-in/10-out notebook,
  \<^verbatim>\<open>((y-y_hat).squeeze()[i].abs()<9.4)[model.data.mask].float().mean()*100\<close>
  and of the single day in the 2-in/1-out notebook,
  \<^verbatim>\<open>((y-y_hat).abs()<9.4)[model.data.mask.expand_as(y)].float().mean()*100\<close>
  The mask expression (\<^verbatim>\<open>model.data.mask\<close> or \<^verbatim>\<open>mask_case\<close>) is evaluated after the
  comparison, so the functions take its outcome: the mask, or the error it raises.
\<close>

definition accuracy_4_10 ::
  "fval tensor \<Rightarrow> fval tensor \<Rightarrow> error + bool tensor \<Rightarrow> nat \<Rightarrow> error + fval" where
  "accuracy_4_10 y y_hat mask_expr i =
     ebind (tsub y y_hat) (\<lambda>d.
     ebind (select0 (squeeze d) i) (\<lambda>di.
     ebind mask_expr (\<lambda>msk.
     ebind (index_bool (tless (tabs di) 9.4) msk) (\<lambda>sel.
     Inr (fscale (mean (to_float sel)) 100)))))"

definition accuracy_2_1 ::
  "fval tensor \<Rightarrow> fval tensor \<Rightarrow> error + bool tensor \<Rightarrow> error + fval" where
  "accuracy_2_1 y y_hat mask_expr =
     ebind (tsub y y_hat) (\<lambda>d.
     ebind mask_expr (\<lambda>msk.
     ebind (expand_as msk y) (\<lambda>m.
     ebind (index_bool (tless (tabs d) 9.4) m) (\<lambda>sel.
     Inr (fscale (mean (to_float sel)) 100)))))"





section \<open>The notebooks as sequences of statements\<close>

subsection \<open>Values, hyperparameters and the calls of \<^verbatim>\<open>get_hparams\<close>\<close>

text \<open>
  The Python values that occur as keyword arguments and as hyperparameters. \<open>PName\<close> is
  a variable used as an argument, as in \<^verbatim>\<open>test_set=test_set_path\<close>. A dict with string
  keys, and the attributes of a \<^verbatim>\<open>Namespace\<close>, are maps from names to values.
\<close>

datatype pyval = PInt int | PStr string | PBool bool | PFloat real | PName string

type_synonym kwargs = "(string \<times> pyval) list"

type_synonym namespace = "string \<rightharpoonup> pyval"

text \<open>The keyword arguments of the call of \<^verbatim>\<open>get_hparams\<close> in each notebook, in order.\<close>

definition get_hparams_call_4_10 :: kwargs where
  "get_hparams_call_4_10 =
     [(''init_features'', PInt 16),
      (''in_days'', PInt 4),
      (''out_days'', PInt 10),
      (''loss'', PStr ''mse''),
      (''batch_size'', PInt 1),
      (''gpus'', PInt 1),
      (''case_study'', PBool False),
      (''clip_fwi'', PBool False),
      (''test_set'', PName ''test_set_path''),
      (''model'', PStr ''unet_tapered''),
      (''out'', PStr ''fwi_reanalysis''),
      (''forcings_dir'', PStr ''/nvme1/fwi-forcings''),
      (''reanalysis_dir'', PStr ''/nvme0/fwi-reanalysis''),
      (''mask'', PStr ''dataloader/mask.npy''),
      (''checkpoint_file'',
         PStr ''/w/deepfwi/src/model/checkpoints/pre_trained/5/4_10/epoch_75_82.ckpt'')]"

definition get_hparams_call_2_1 :: kwargs where
  "get_hparams_call_2_1 =
     [(''init_features'', PInt 16),
      (''in_days'', PInt 2),
      (''out_days'', PInt 1),
      (''loss'', PStr ''mse''),
      (''batch_size'', PInt 1),
      (''gpus'', PInt 1),
      (''case_study'', PBool False),
      (''clip_fwi'', PBool False),
      (''test_set'', PName ''test_set_path''),
      (''model'', PStr ''unet_tapered''),
      (''out'', PStr ''fwi_reanalysis''),
      (''forcings_dir'', PStr ''./deepfwi-mini-sample/fwi-forcings''),
      (''reanalysis_dir'', PStr ''./deepfwi-mini-sample/fwi-reanalysis''),
      (''mask'', PBool False),
      (''checkpoint_file'', PStr ''../src/model/checkpoints/pre_trained/2_1/epoch_41_100.ckpt'')]"

text \<open>
  The options the description of the external interfaces lists for the
  hyperparameter builder: feature width, input and output day counts, loss name, batch
  size, GPU count, case-study flag, mask path, checkpoint path, Box-Cox lambda.
\<close>

definition listed_options :: "string list" where
  "listed_options =
     [''init_features'', ''in_days'', ''out_days'', ''loss'', ''batch_size'', ''gpus'',
      ''case_study'', ''mask'', ''checkpoint_file'', ''boxcox'']"

subsection \<open>Statements\<close>

text \<open>
  One constructor for each kind of statement of the code cells. The statements that
  differ between the notebooks carry their texts and constants.
\<close>

datatype form = Days | One

datatype picture = Truth | Prediction | Error

datatype region = Globe | Region

datatype stmt =
    Magic string
  | Import string
  | Chdir string
  | LoggingDisable
  | FilterWarnings
  | AssignSeed nat
  | TorchManualSeed
  | CudaManualSeedAll
  | NumpySeed
  | RandomSeed
  | Shell string
  | AssignTestFiles "string list"
  | PrintFirstFiles
  | PickleTestFiles
  | GetHparams kwargs
  | MakeNamespace
  | SetHparam string pyval
  | GetModel
  | LoadStateDict
  | ModelEval
  | GetInput
  | GetTruth
  | Forward
  | InvBoxcox
  | MaskNan
  | PlotInputs string
  | DefPlot
  | Plot form picture region string
  | CaseTruth form
  | CasePrediction form
  | CaseMask
  | MakeTrainer
  | TrainerTest

subsection \<open>The external world and the state of the kernel\<close>

text \<open>
  The states of the random number generators of torch, of CUDA (there is none without a
  CUDA device), of numpy and of Python's \<^verbatim>\<open>random\<close>. Seeding a generator with \<open>n\<close> puts it
  in the state \<open>n\<close>.
\<close>

record rng =
  torch_rng :: nat
  cuda_rng :: "nat option"
  numpy_rng :: nat
  python_rng :: nat

text \<open>
  Everything the notebooks call and do not define: the modules \<^verbatim>\<open>train\<close>, \<^verbatim>\<open>torch\<close>,
  \<^verbatim>\<open>scipy\<close>, \<^verbatim>\<open>matplotlib\<close>, \<^verbatim>\<open>pytorch_lightning\<close>, the file system and the shell. A call
  returns a value or raises; the calls that build the model, read the data and run the
  model may draw random numbers. \<open>'m\<close> is the type of model objects, \<open>'w\<close> of weights,
  \<open>'t\<close> of trainers and \<open>'r\<close> of the results of a bulk test.
\<close>

record ('m, 'w, 't, 'r) world =
  cuda_is_available :: bool
  run_magic :: "string \<Rightarrow> error option"
  import_module :: "string \<Rightarrow> error option"
  os_chdir :: "string \<Rightarrow> error option"
  run_shell :: "string \<Rightarrow> int"
  named_temporary_file :: "error + string"
  pickle_dump :: "string list \<Rightarrow> string \<Rightarrow> error option"
  get_hparams :: "kwargs \<Rightarrow> error + namespace"
  get_model :: "namespace \<Rightarrow> rng \<Rightarrow> error + 'm \<times> rng"
  torch_load :: "pyval \<Rightarrow> error + (string \<rightharpoonup> 'w)"
  load_state_dict :: "'m \<Rightarrow> 'w \<Rightarrow> error + 'm"
  model_eval :: "'m \<Rightarrow> error + 'm"
  model_data_item :: "'m \<Rightarrow> nat \<Rightarrow> rng \<Rightarrow> error + (fval tensor \<times> fval tensor) \<times> rng"
  model_data_mask :: "'m \<Rightarrow> error + bool tensor"
  model_hparams :: "'m \<Rightarrow> error + namespace"
  model_call :: "'m \<Rightarrow> fval tensor \<Rightarrow> rng \<Rightarrow> error + fval tensor \<times> rng"
  inv_boxcox :: "fval \<Rightarrow> real \<Rightarrow> fval"
  plt_figure :: "string \<Rightarrow> error option"
  plt_imshow :: "fval tensor \<Rightarrow> error option"
  plt_show :: "error option"
  draw :: "fval tensor \<Rightarrow> string \<Rightarrow> fval option \<Rightarrow> error option"
  new_trainer :: "pyval \<Rightarrow> error + 't"
  trainer_test :: "'t \<Rightarrow> 'm \<Rightarrow> rng \<Rightarrow> error + 'r \<times> rng"

text \<open>
  What a cell has put on the screen: the status of a shell command, printed lines, the
  figure of the input variables with its title, a figure of the helper \<^verbatim>\<open>plot\<close> with its
  title, its picture and the number in its title, and the results of the bulk test.
\<close>

datatype 'r shown =
    ShellStatus int
  | Printed "string list"
  | InputsFigure string
  | Figure string "fval tensor" "fval option"
  | TestResults 'r

text \<open>
  The variables of the kernel (\<open>None\<close> while a variable is not bound), the generators,
  whether logging and warnings have been switched off, and the screen.
\<close>

record ('m, 't, 'r) state =
  generators :: rng
  logging_disabled :: bool
  warnings_ignored :: bool
  v_SEED :: "nat option"
  v_test_out_files :: "string list option"
  v_test_set_path :: "string option"
  v_hparams_dict :: "namespace option"
  v_hparams :: "namespace option"
  v_model :: "'m option"
  v_x :: "fval tensor option"
  v_y :: "fval tensor option"
  v_y_hat :: "fval tensor option"
  v_y_case :: "fval tensor option"
  v_y_hat_case :: "fval tensor option"
  v_mask_case :: "bool tensor option"
  v_plot :: bool
  v_trainer :: "'t option"
  screen :: "'r shown list"

definition fresh_kernel :: "rng \<Rightarrow> ('m, 't, 'r) state" where
  "fresh_kernel g =
     \<lparr>generators = g, logging_disabled = False, warnings_ignored = False, v_SEED = None,
      v_test_out_files = None, v_test_set_path = None, v_hparams_dict = None,
      v_hparams = None, v_model = None, v_x = None, v_y = None, v_y_hat = None,
      v_y_case = None, v_y_hat_case = None, v_mask_case = None, v_plot = False,
      v_trainer = None, screen = []\<rparr>"

subsection \<open>What a statement does\<close>

text \<open>Reading a variable that is not bound, or an attribute that is not there, raises.\<close>

definition var :: "string \<Rightarrow> 'a option \<Rightarrow> error + 'a" where
  "var name v = (case v of None \<Rightarrow> Inl (NameError name) | Some a \<Rightarrow> Inr a)"

definition attr :: "namespace \<Rightarrow> string \<Rightarrow> error + pyval" where
  "attr ns name = (case ns name of None \<Rightarrow> Inl (AttributeError name) | Some v \<Rightarrow> Inr v)"

definition raise_or :: "error option \<Rightarrow> 'a \<Rightarrow> error + 'a" where
  "raise_or r a = (case r of Some e \<Rightarrow> Inl e | None \<Rightarrow> Inr a)"

text \<open>
  A value used as the bound of \<^verbatim>\<open>range\<close> (a bool is an int in Python) and as a number.
\<close>

fun as_range :: "pyval \<Rightarrow> error + nat list" where
  "as_range (PInt n) = Inr [0..<nat n]"
| "as_range (PBool b) = Inr [0..<(if b then 1 else 0)]"
| "as_range _ = Inl TypeError"

fun as_number :: "pyval \<Rightarrow> error + real" where
  "as_number (PInt n) = Inr (real_of_int n)"
| "as_number (PBool b) = Inr (if b then 1 else 0)"
| "as_number (PFloat r) = Inr r"
| "as_number _ = Inl TypeError"

text \<open>A \<^verbatim>\<open>for\<close> loop: the body runs for each element in turn and stops where it raises.\<close>

fun for_each :: "('i \<Rightarrow> 's \<Rightarrow> error + 's) \<Rightarrow> 'i list \<Rightarrow> 's \<Rightarrow> error + 's" where
  "for_each body [] s = Inr s"
| "for_each body (i # rest) s = ebind (body i s) (for_each body rest)"

text \<open>The keyword arguments of a call, with the variables among them read.\<close>

fun argument :: "('m, 't, 'r) state \<Rightarrow> pyval \<Rightarrow> error + pyval" where
  "argument s (PName n) =
     (if n = ''test_set_path'' then ebind (var n (v_test_set_path s)) (\<lambda>p. Inr (PStr p))
      else Inl (NameError n))"
| "argument s v = Inr v"

fun arguments :: "('m, 't, 'r) state \<Rightarrow> kwargs \<Rightarrow> error + kwargs" where
  "arguments s [] = Inr []"
| "arguments s ((k, v) # rest) =
     ebind (argument s v) (\<lambda>a. ebind (arguments s rest) (\<lambda>as. Inr ((k, a) # as)))"

text \<open>\<^verbatim>\<open>t.unsqueeze(0)\<close>\<close>

definition unsqueeze0 :: "'a tensor \<Rightarrow> 'a tensor" where
  "unsqueeze0 t = \<lparr>shape = 1 # shape t, entries = entries t\<rparr>"

text \<open>
  The mean absolute error in the title of an error plot,
  \<^verbatim>\<open>((y-y_hat).squeeze()[i].abs())[model.data.mask].float().mean()\<close> and
  \<^verbatim>\<open>((y-y_hat).abs())[model.data.mask.expand_as(y)].float().mean()\<close>
\<close>

definition mae_4_10 ::
  "fval tensor \<Rightarrow> fval tensor \<Rightarrow> error + bool tensor \<Rightarrow> nat \<Rightarrow> error + fval" where
  "mae_4_10 y y_hat mask_expr i =
     ebind (tsub y y_hat) (\<lambda>d.
     ebind (select0 (squeeze d) i) (\<lambda>di.
     ebind mask_expr (\<lambda>msk.
     ebind (index_bool (tabs di) msk) (\<lambda>sel.
     Inr (mean sel)))))"

definition mae_2_1 :: "fval tensor \<Rightarrow> fval tensor \<Rightarrow> error + bool tensor \<Rightarrow> error + fval" where
  "mae_2_1 y y_hat mask_expr =
     ebind (tsub y y_hat) (\<lambda>d.
     ebind mask_expr (\<lambda>msk.
     ebind (expand_as msk y) (\<lambda>m.
     ebind (index_bool (tabs d) m) (\<lambda>sel.
     Inr (mean sel)))))"

text \<open>
  The tensor a plot shows and the number in its title. In the loops of the 4-in/10-out
  notebook (\<open>Days\<close>) the picture of day \<open>i\<close> is \<^verbatim>\<open>y.squeeze()[i]\<close>,
  \<^verbatim>\<open>y_hat.squeeze()[i]\<close> or \<^verbatim>\<open>(y-y_hat).abs().squeeze()[i]\<close>; the 2-in/1-out notebook
  (\<open>One\<close>) shows \<^verbatim>\<open>y.squeeze()\<close>, \<^verbatim>\<open>y_hat.squeeze()\<close> or \<^verbatim>\<open>(y-y_hat).abs().squeeze()\<close>.
  The case-study plots read \<^verbatim>\<open>y_case\<close>, \<^verbatim>\<open>y_hat_case\<close> and \<^verbatim>\<open>mask_case\<close> instead.
\<close>

definition truth_of :: "region \<Rightarrow> ('m, 't, 'r) state \<Rightarrow> error + fval tensor" where
  "truth_of reg s =
     (case reg of Globe \<Rightarrow> var ''y'' (v_y s) | Region \<Rightarrow> var ''y_case'' (v_y_case s))"

definition prediction_of :: "region \<Rightarrow> ('m, 't, 'r) state \<Rightarrow> error + fval tensor" where
  "prediction_of reg s =
     (case reg of Globe \<Rightarrow> var ''y_hat'' (v_y_hat s)
      | Region \<Rightarrow> var ''y_hat_case'' (v_y_hat_case s))"

definition mask_of ::
  "('m, 'w, 't, 'r) world \<Rightarrow> region \<Rightarrow> ('m, 't, 'r) state \<Rightarrow> error + bool tensor" where
  "mask_of w reg s =
     (case reg of Globe \<Rightarrow> ebind (var ''model'' (v_model s)) (model_data_mask w)
      | Region \<Rightarrow> var ''mask_case'' (v_mask_case s))"

definition whole :: "picture \<Rightarrow> region \<Rightarrow> ('m, 't, 'r) state \<Rightarrow> error + fval tensor" where
  "whole pic reg s =
     (case pic of
        Truth \<Rightarrow> truth_of reg s
      | Prediction \<Rightarrow> prediction_of reg s
      | Error \<Rightarrow>
          ebind (truth_of reg s) (\<lambda>y. ebind (prediction_of reg s) (\<lambda>y_hat.
          ebind (tsub y y_hat) (\<lambda>d. Inr (tabs d)))))"

definition image :: "form \<Rightarrow> picture \<Rightarrow> region \<Rightarrow> nat \<Rightarrow> ('m, 't, 'r) state \<Rightarrow> error + fval tensor"
where
  "image frm pic reg i s =
     ebind (whole pic reg s) (\<lambda>t.
       case frm of Days \<Rightarrow> select0 (squeeze t) i | One \<Rightarrow> Inr (squeeze t))"

definition metric ::
  "('m, 'w, 't, 'r) world \<Rightarrow> form \<Rightarrow> picture \<Rightarrow> region \<Rightarrow> nat \<Rightarrow> ('m, 't, 'r) state
     \<Rightarrow> error + fval option"
where
  "metric w frm pic reg i s =
     (case pic of
        Truth \<Rightarrow> Inr None
      | Prediction \<Rightarrow>
          ebind (truth_of reg s) (\<lambda>y. ebind (prediction_of reg s) (\<lambda>y_hat.
          ebind (case frm of Days \<Rightarrow> accuracy_4_10 y y_hat (mask_of w reg s) i
                 | One \<Rightarrow> accuracy_2_1 y y_hat (mask_of w reg s)) (\<lambda>a. Inr (Some a))))
      | Error \<Rightarrow>
          ebind (truth_of reg s) (\<lambda>y. ebind (prediction_of reg s) (\<lambda>y_hat.
          ebind (case frm of Days \<Rightarrow> mae_4_10 y y_hat (mask_of w reg s) i
                 | One \<Rightarrow> mae_2_1 y y_hat (mask_of w reg s)) (\<lambda>a. Inr (Some a)))))"

text \<open>
  One call of the notebook's helper \<^verbatim>\<open>plot(im, title)\<close>, whose body is calls of matplotlib
  only (taken as the one external step \<open>draw\<close>), followed by \<^verbatim>\<open>plt.show()\<close> where the cell
  has it: the loops over the days have it for the ground truth and the prediction. The
  title of day \<open>i\<close> ends with \<^verbatim>\<open>2019-04-{4+i:02}\<close>.
\<close>

definition figure ::
  "('m, 'w, 't, 'r) world \<Rightarrow> form \<Rightarrow> picture \<Rightarrow> region \<Rightarrow> string \<Rightarrow> nat \<Rightarrow> ('m, 't, 'r) state
     \<Rightarrow> error + ('m, 't, 'r) state"
where
  "figure w frm pic reg title i s =
     (if \<not> v_plot s then Inl (NameError ''plot'') else
      ebind (image frm pic reg i s) (\<lambda>im.
      ebind (metric w frm pic reg i s) (\<lambda>number.
      let text = (case frm of Days \<Rightarrow> title @ format_02 (4 + int i) | One \<Rightarrow> title) in
      ebind (raise_or (draw w im text number) ()) (\<lambda>_.
      ebind (if frm = Days \<and> pic \<noteq> Error then raise_or (plt_show w) () else Inr ()) (\<lambda>_.
      Inr (s\<lparr>screen := screen s @ [Figure text im number]\<rparr>))))))"

text \<open>
  The figure of the input variables:
  \<^verbatim>\<open>
  fig=plt.figure(figsize=(20, hparams.in_days*4))
  fig.suptitle(..., fontsize=25)
  for i in range(hparams.in_days):
      for j in range(4):
          ...
          plt.imshow(x.squeeze()[4*i+j], cmap=...)
  plt.show()
  \<close>
  The matplotlib calls of one iteration (the axis, its labels and \<^verbatim>\<open>imshow\<close>) are taken
  as the one external step \<open>plt_imshow\<close>.
\<close>

definition plot_inputs ::
  "('m, 'w, 't, 'r) world \<Rightarrow> string \<Rightarrow> ('m, 't, 'r) state \<Rightarrow> error + ('m, 't, 'r) state" where
  "plot_inputs w title s =
     ebind (var ''hparams'' (v_hparams s)) (\<lambda>hp.
     ebind (attr hp ''in_days'') (\<lambda>n.
     ebind (as_range n) (\<lambda>days.
     ebind (raise_or (plt_figure w title) ()) (\<lambda>_.
     ebind (for_each (\<lambda>(i, j) u.
              ebind (var ''x'' (v_x s)) (\<lambda>x.
              ebind (select0 (squeeze x) (4 * i + j)) (\<lambda>im.
              raise_or (plt_imshow w im) u)))
              (List.product days [0..<4]) ()) (\<lambda>_.
     ebind (raise_or (plt_show w) ()) (\<lambda>_.
     Inr (s\<lparr>screen := screen s @ [InputsFigure title]\<rparr>)))))))"

text \<open>The statements, one by one.\<close>

fun exec ::
  "('m, 'w, 't, 'r) world \<Rightarrow> stmt \<Rightarrow> ('m, 't, 'r) state \<Rightarrow> error + ('m, 't, 'r) state" where
  "exec w (Magic m) s = raise_or (run_magic w m) s"
| "exec w (Import m) s = raise_or (import_module w m) s"
| "exec w (Chdir d) s = raise_or (os_chdir w d) s"
| "exec w LoggingDisable s = Inr (s\<lparr>logging_disabled := True\<rparr>)"
| "exec w FilterWarnings s = Inr (s\<lparr>warnings_ignored := True\<rparr>)"
| "exec w (AssignSeed n) s = Inr (s\<lparr>v_SEED := Some n\<rparr>)"
| "exec w TorchManualSeed s =
     ebind (var ''SEED'' (v_SEED s)) (\<lambda>n.
     Inr (s\<lparr>generators := (generators s)\<lparr>torch_rng := n\<rparr>\<rparr>))"
| "exec w CudaManualSeedAll s =
     (if cuda_is_available w then
        ebind (var ''SEED'' (v_SEED s)) (\<lambda>n.
        Inr (s\<lparr>generators := (generators s)\<lparr>cuda_rng := Some n\<rparr>\<rparr>))
      else Inr s)"
| "exec w NumpySeed s =
     ebind (var ''SEED'' (v_SEED s)) (\<lambda>n.
     Inr (s\<lparr>generators := (generators s)\<lparr>numpy_rng := n\<rparr>\<rparr>))"
| "exec w RandomSeed s =
     ebind (var ''SEED'' (v_SEED s)) (\<lambda>n.
     Inr (s\<lparr>generators := (generators s)\<lparr>python_rng := n\<rparr>\<rparr>))"
| "exec w (Shell c) s = Inr (s\<lparr>screen := screen s @ [ShellStatus (run_shell w c)]\<rparr>)"
| "exec w (AssignTestFiles fs) s = Inr (s\<lparr>v_test_out_files := Some fs\<rparr>)"
| "exec w PrintFirstFiles s =
     ebind (var ''test_out_files'' (v_test_out_files s)) (\<lambda>fs.
     Inr (s\<lparr>screen := screen s @ [Printed (''First few files...'' # take 3 fs)]\<rparr>))"
| "exec w PickleTestFiles s =
     ebind (named_temporary_file w) (\<lambda>tmp.
     ebind (var ''test_out_files'' (v_test_out_files s)) (\<lambda>fs.
     ebind (raise_or (pickle_dump w fs tmp) ()) (\<lambda>_.
     Inr (s\<lparr>v_test_set_path := Some tmp\<rparr>))))"
| "exec w (GetHparams kw) s =
     ebind (arguments s kw) (\<lambda>args.
     ebind (get_hparams w args) (\<lambda>d.
     Inr (s\<lparr>v_hparams_dict := Some d\<rparr>)))"
| "exec w MakeNamespace s =
     ebind (var ''hparams_dict'' (v_hparams_dict s)) (\<lambda>d.
     Inr (s\<lparr>v_hparams := Some d\<rparr>))"
| "exec w (SetHparam name v) s =
     ebind (var ''hparams'' (v_hparams s)) (\<lambda>hp.
     Inr (s\<lparr>v_hparams := Some (hp(name \<mapsto> v))\<rparr>))"
| "exec w GetModel s =
     ebind (var ''hparams'' (v_hparams s)) (\<lambda>hp.
     ebind (get_model w hp (generators s)) (\<lambda>(m, g).
     Inr (s\<lparr>v_model := Some m, generators := g\<rparr>)))"
| "exec w LoadStateDict s =
     ebind (var ''model'' (v_model s)) (\<lambda>m.
     ebind (var ''hparams'' (v_hparams s)) (\<lambda>hp.
     ebind (attr hp ''checkpoint_file'') (\<lambda>file.
     ebind (torch_load w file) (\<lambda>checkpoint.
     ebind (case checkpoint ''state_dict'' of
              None \<Rightarrow> Inl (KeyError ''state_dict'') | Some sd \<Rightarrow> Inr sd) (\<lambda>sd.
     ebind (load_state_dict w m sd) (\<lambda>m'.
     Inr (s\<lparr>v_model := Some m'\<rparr>)))))))"
| "exec w ModelEval s =
     ebind (var ''model'' (v_model s)) (\<lambda>m.
     ebind (model_eval w m) (\<lambda>m'.
     Inr (s\<lparr>v_model := Some m'\<rparr>)))"
| "exec w GetInput s =
     ebind (var ''model'' (v_model s)) (\<lambda>m.
     ebind (model_data_item w m 0 (generators s)) (\<lambda>(item, g).
     Inr (s\<lparr>v_x := Some (unsqueeze0 (fst item)), generators := g\<rparr>)))"
| "exec w GetTruth s =
     ebind (var ''model'' (v_model s)) (\<lambda>m.
     ebind (model_data_item w m 0 (generators s)) (\<lambda>(item, g).
     Inr (s\<lparr>v_y := Some (unsqueeze0 (snd item)), generators := g\<rparr>)))"
| "exec w Forward s =
     ebind (var ''model'' (v_model s)) (\<lambda>m.
     ebind (var ''x'' (v_x s)) (\<lambda>x.
     ebind (model_call w m x (generators s)) (\<lambda>(out, g).
     Inr (s\<lparr>v_y_hat := Some out, generators := g\<rparr>))))"
| "exec w InvBoxcox s =
     ebind (var ''y_hat'' (v_y_hat s)) (\<lambda>y_hat.
     ebind (var ''model'' (v_model s)) (\<lambda>m.
     ebind (model_hparams w m) (\<lambda>hp.
     ebind (attr hp ''boxcox'') (\<lambda>v.
     ebind (as_number v) (\<lambda>lmbda.
     Inr (s\<lparr>v_y_hat := Some (tmap (\<lambda>u. inv_boxcox w u lmbda) y_hat)\<rparr>))))))"
| "exec w MaskNan s =
     ebind (var ''y_hat'' (v_y_hat s)) (\<lambda>y_hat.
     ebind (var ''y'' (v_y s)) (\<lambda>y.
     ebind (mask_prediction y_hat y) (\<lambda>masked.
     Inr (s\<lparr>v_y_hat := Some masked\<rparr>))))"
| "exec w (PlotInputs title) s = plot_inputs w title s"
| "exec w DefPlot s = Inr (s\<lparr>v_plot := True\<rparr>)"
| "exec w (Plot Days pic reg title) s =
     ebind (var ''hparams'' (v_hparams s)) (\<lambda>hp.
     ebind (attr hp ''out_days'') (\<lambda>n.
     ebind (as_range n) (\<lambda>days.
     for_each (figure w Days pic reg title) days s)))"
| "exec w (Plot One pic reg title) s = figure w One pic reg title 0 s"
| "exec w (CaseTruth frm) s =
     ebind (var ''y'' (v_y s)) (\<lambda>y.
     ebind (case frm of Days \<Rightarrow> case_slice_days y | One \<Rightarrow> case_slice_one y) (\<lambda>c.
     Inr (s\<lparr>v_y_case := Some c\<rparr>)))"
| "exec w (CasePrediction frm) s =
     ebind (var ''y_hat'' (v_y_hat s)) (\<lambda>y_hat.
     ebind (case frm of Days \<Rightarrow> case_slice_days y_hat | One \<Rightarrow> case_slice_one y_hat) (\<lambda>c.
     Inr (s\<lparr>v_y_hat_case := Some c\<rparr>)))"
| "exec w CaseMask s =
     ebind (var ''model'' (v_model s)) (\<lambda>m.
     ebind (model_data_mask w m) (\<lambda>msk.
     ebind (case_slice_mask msk) (\<lambda>c.
     Inr (s\<lparr>v_mask_case := Some c\<rparr>))))"
| "exec w MakeTrainer s =
     ebind (var ''hparams'' (v_hparams s)) (\<lambda>hp.
     ebind (attr hp ''gpus'') (\<lambda>g.
     ebind (new_trainer w g) (\<lambda>t.
     Inr (s\<lparr>v_trainer := Some t\<rparr>))))"
| "exec w TrainerTest s =
     ebind (var ''trainer'' (v_trainer s)) (\<lambda>t.
     ebind (var ''model'' (v_model s)) (\<lambda>m.
     ebind (trainer_test w t m (generators s)) (\<lambda>(r, g).
     Inr (s\<lparr>screen := screen s @ [TestResults r], generators := g\<rparr>))))"

subsection \<open>Running a notebook\<close>

text \<open>
  The kernel runs the statements of the code cells from top to bottom and stops at the
  first one that raises. The result is the statements it completed, in order, the state
  it reached, and the statement that raised with its error, if any; that statement
  leaves the state as it found it.
\<close>

fun run ::
  "('m, 'w, 't, 'r) world \<Rightarrow> stmt list \<Rightarrow> ('m, 't, 'r) state
     \<Rightarrow> stmt list \<times> ('m, 't, 'r) state \<times> (stmt \<times> error) option" where
  "run w [] s = ([], s, None)"
| "run w (st # rest) s =
     (case exec w st s of
        Inl e \<Rightarrow> ([], s, Some (st, e))
      | Inr s' \<Rightarrow> (case run w rest s' of (completed, s'', f) \<Rightarrow> (st # completed, s'', f)))"


subsection \<open>The code cells\<close>

text \<open>
  The cells the two notebooks share, in the order of the notebooks. An import with
  several names is one import of its module, and \<^verbatim>\<open>import logging, sys\<close> is two imports.
\<close>

definition importing_train :: "stmt list" where
  "importing_train = [Import ''os'', Chdir ''../src'', Import ''train'']"

definition importing_installed :: "stmt list" where
  "importing_installed =
     [Import ''random'', Import ''glob'', Import ''argparse'', Import ''pickle'',
      Import ''tempfile'', Import ''logging'', Import ''sys'', LoggingDisable,
      Import ''warnings'', FilterWarnings, Import ''matplotlib'',
      Import ''mpl_toolkits.axes_grid1'', Import ''numpy'', Import ''torch'',
      Import ''scipy.special'', Import ''pytorch_lightning'', Import ''pytorch_lightning'']"

definition ensuring_reproducibility :: "stmt list" where
  "ensuring_reproducibility =
     [AssignSeed 2334, TorchManualSeed, CudaManualSeedAll, NumpySeed, RandomSeed]"

definition setting_flag :: "stmt list" where
  "setting_flag = [SetHparam ''eval'' (PBool True)]"

definition preparing_model :: "stmt list" where
  "preparing_model = [GetModel, LoadStateDict, ModelEval]"

definition manual_inference :: "stmt list" where
  "manual_inference = [GetInput, GetTruth, Forward, MaskNan]"

definition boxcox_inference :: "stmt list" where
  "boxcox_inference = [GetInput, GetTruth, Forward, InvBoxcox, MaskNan]"

definition bulk_inference :: "stmt list" where
  "bulk_inference = [MakeTrainer, TrainerTest]"

text \<open>The notebook \<^verbatim>\<open>10 days FWI Reanalysis forecast using 4 days input\<close>.\<close>

definition notebook_4_10 :: "stmt list" where
  "notebook_4_10 =
     importing_train @ importing_installed @ ensuring_reproducibility
     @ [Chdir ''../examples'', Shell ''gsutil cp -r gs://deepfwi-mini-sample .'',
        Chdir ''../src'']
     @ [AssignTestFiles test_out_files_4_10, PrintFirstFiles, PickleTestFiles]
     @ [GetHparams get_hparams_call_4_10, MakeNamespace]
     @ setting_flag @ preparing_model @ manual_inference
     @ [PlotInputs ''Input FWI-variables from 2019-04-01 till 2019-04-04'']
     @ [DefPlot]
     @ [Plot Days Truth Globe ''Observed FWI-reanalysis for 2019-04-'']
     @ [Plot Days Prediction Globe ''Predicted FWI-reanalysis for 2019-04-'']
     @ [Plot Days Error Globe ''Error in predicted FWI-reanalysis for 2019-04-'']
     @ [CaseTruth Days, CasePrediction Days, CaseMask]
     @ [Plot Days Truth Region ''Observed FWI-reanalysis in the case-study region for 2019-04-'']
     @ [Plot Days Prediction Region
          ''Predicted FWI-reanalysis in the case-study region for 2019-04-'']
     @ [Plot Days Error Region ''Error in predicted FWI-reanalysis for 2019-04-'']
     @ [SetHparam ''boxcox'' (PFloat 0.1182),
        SetHparam ''checkpoint_file''
          (PStr ''/w/deepfwi/src/model/checkpoints/pre_trained/7/4_10/epoch_99_100.ckpt'')]
     @ preparing_model @ boxcox_inference
     @ [Plot Days Prediction Globe ''Predicted FWI-reanalysis for 2019-04-'']
     @ [Plot Days Error Globe ''Error in predicted FWI-reanalysis for 2019-04-'']
     @ bulk_inference"

text \<open>
  The notebook \<^verbatim>\<open>inference_2_1.ipynb\<close>. Its download cell is a markdown cell and runs
  nothing.
\<close>

definition notebook_2_1 :: "stmt list" where
  "notebook_2_1 =
     [Magic ''load_ext autoreload'', Magic ''autoreload 2'']
     @ importing_train @ importing_installed @ ensuring_reproducibility
     @ [AssignTestFiles test_out_files_2_1, PrintFirstFiles, PickleTestFiles]
     @ [GetHparams get_hparams_call_2_1, MakeNamespace]
     @ setting_flag @ preparing_model @ manual_inference
     @ [PlotInputs ''Input FWI-variables from 2019-12-01 till 2019-12-02'']
     @ [DefPlot]
     @ [Plot One Truth Globe ''Observed FWI-reanalysis'']
     @ [Plot One Prediction Globe ''Predicted FWI-reanalysis'']
     @ [Plot One Error Globe ''Error in predicted FWI-reanalysis'']
     @ [CaseTruth One, CasePrediction One, CaseMask]
     @ [Plot One Truth Region ''Observed FWI-reanalysis in the case-study region'']
     @ [Plot One Prediction Region ''Predicted FWI-reanalysis in the case-study region'']
     @ [Plot One Error Region ''Error in predicted FWI-reanalysis'']
     @ [SetHparam ''boxcox'' (PFloat 0.1182),
        SetHparam ''checkpoint_file''
          (PStr ''../src/model/checkpoints/pre_trained/7/2_1/epoch_41_100.ckpt'')]
     @ preparing_model @ boxcox_inference
     @ [Plot One Prediction Globe ''Predicted FWI-reanalysis after Box-Cox transformation'']
     @ [Plot One Error Globe
          ''Error in predicted FWI-reanalysis after Box-Cox transformation'']
     @ bulk_inference"

subsection \<open>An example world\<close>

text \<open>
  One world in which every external call succeeds, to run the notebooks on: a model is
  the namespace it was built from, the data set has one sample of two days of input on
  a grid of two by two cells, and the forward pass returns a fixed prediction for one
  day. Nothing is drawn from the generators.
\<close>

definition example_world :: "(namespace, nat, unit, unit) world" where
  "example_world =
     \<lparr>cuda_is_available = False,
      run_magic = (\<lambda>m. None),
      import_module = (\<lambda>m. None),
      os_chdir = (\<lambda>d. None),
      run_shell = (\<lambda>c. 0),
      named_temporary_file = Inr ''/tmp/tmp0'',
      pickle_dump = (\<lambda>fs tmp. None),
      get_hparams = (\<lambda>kw. Inr (map_of kw)),
      get_model = (\<lambda>hp g. Inr (hp, g)),
      torch_load = (\<lambda>file. Inr [''state_dict'' \<mapsto> 0]),
      load_state_dict = (\<lambda>m sd. Inr m),
      model_eval = (\<lambda>m. Inr m),
      model_data_item = (\<lambda>m i g.
        Inr ((\<lparr>shape = [8, 2, 2], entries = replicate 32 (Fin 280)\<rparr>,
              \<lparr>shape = [1, 2, 2], entries = [NaN, Fin 3, Fin 4, Fin 30]\<rparr>), g)),
      model_data_mask = (\<lambda>m. Inr \<lparr>shape = [2, 2], entries = [True, True, True, False]\<rparr>),
      model_hparams = (\<lambda>m. Inr m),
      model_call = (\<lambda>m x g.
        Inr (\<lparr>shape = [1, 1, 2, 2], entries = [Fin 5, Fin 7, Fin 4, Fin 10]\<rparr>, g)),
      inv_boxcox = (\<lambda>u lmbda. case u of NaN \<Rightarrow> NaN | Fin v \<Rightarrow> Fin (v * lmbda + 1)),
      plt_figure = (\<lambda>title. None),
      plt_imshow = (\<lambda>im. None),
      plt_show = None,
      draw = (\<lambda>im title number. None),
      new_trainer = (\<lambda>gpus. Inr ()),
      trainer_test = (\<lambda>t m g. Inr ((), g))\<rparr>"

definition example_generators :: rng where
  "example_generators = \<lparr>torch_rng = 1, cuda_rng = None, numpy_rng = 2, python_rng = 3\<rparr>"

subsection \<open>The order of the statements\<close>







section \<open>Properties\<close>

lemma shape_isnan: "shape (isnan y) = shape y"
  by (simp add: isnan_def tmap_def)

lemma entries_isnan: "entries (isnan y) = map is_nan (entries y)"
  by (simp add: isnan_def tmap_def)

lemma index_put_bool_same_shape:
  assumes "shape m = shape t"
  shows "index_put_bool t m v =
     Inr \<lparr>shape = shape t,
          entries = map (\<lambda>k. if entries m ! k then v else entries t ! k)
                        [0..<length (entries t)]\<rparr>"
  using assms by (simp add: index_put_bool_def numel_def)

lemma mask_prediction_same_shape:
  assumes "shape y = shape y_hat" and "length (entries y) = length (entries y_hat)"
  shows "mask_prediction y_hat y =
     Inr \<lparr>shape = shape y_hat,
          entries = map (\<lambda>k. if is_nan (entries y ! k) then NaN else entries y_hat ! k)
                        [0..<length (entries y_hat)]\<rparr>"
  unfolding mask_prediction_def
  using assms by (simp add: index_put_bool_same_shape shape_isnan entries_isnan)

lemma index_put_bool_shape:
  "index_put_bool t m v = Inr t' \<Longrightarrow> shape t' = shape t \<and> length (entries t') = length (entries t)"
  by (auto simp: index_put_bool_def Let_def split: if_splits)

text \<open>
  C1: after \<^verbatim>\<open>y_hat[torch.isnan(y)] = nan\<close>, with \<open>y_hat\<close> the output of the forward pass
  (or of the inverse Box-Cox transform) and \<open>y\<close> the ground truth of the same shape, the
  assignment succeeds, the shape of \<open>y_hat\<close> is kept, every entry at a position where \<open>y\<close>
  is NaN is NaN, and every entry at a position where \<open>y\<close> is not NaN is the entry
  \<open>y_hat\<close> had before.
\<close>

theorem mask_prediction_frame:
  assumes "shape y = shape y_hat" and "well_shaped y" and "well_shaped y_hat"
  shows "\<exists>m. mask_prediction y_hat y = Inr m \<and> shape m = shape y_hat
           \<and> length (entries m) = length (entries y_hat)
           \<and> (\<forall>k < length (entries y_hat).
                 (is_nan (entries y ! k) \<longrightarrow> entries m ! k = NaN)
               \<and> (\<not> is_nan (entries y ! k) \<longrightarrow> entries m ! k = entries y_hat ! k))"
proof -
  from assms have len: "length (entries y) = length (entries y_hat)"
    by (simp add: well_shaped_def)
  show ?thesis
    by (simp add: mask_prediction_same_shape [OF assms(1) len])
qed

theorem mask_prediction_frame_witness:
  "\<exists>m. mask_prediction \<lparr>shape = [1, 1, 1, 3], entries = [Fin 5, Fin 7, NaN]\<rparr>
                        \<lparr>shape = [1, 1, 1, 3], entries = [NaN, Fin 2, Fin 3]\<rparr> = Inr m
       \<and> entries m ! 0 = NaN \<and> entries m ! 1 = Fin 7 \<and> entries m ! 2 = NaN"
  using mask_prediction_frame
    [of "\<lparr>shape = [1, 1, 1, 3], entries = [NaN, Fin 2, Fin 3]\<rparr>"
        "\<lparr>shape = [1, 1, 1, 3], entries = [Fin 5, Fin 7, NaN]\<rparr>"]
  by (auto simp: well_shaped_def numel_def)

text \<open>
  C10: masking is idempotent. Whenever the assignment succeeds on \<open>y_hat\<close> and \<open>y\<close>,
  repeating it on the result with the same \<open>y\<close> succeeds and returns the same tensor.
\<close>

theorem mask_prediction_idempotent:
  assumes "mask_prediction y_hat y = Inr m"
  shows "mask_prediction m y = Inr m"
proof -
  from assms have pre: "prefix (shape (isnan y)) (shape y_hat)"
    by (auto simp: mask_prediction_def index_put_bool_def split: if_splits)
  from assms have sh: "shape m = shape y_hat" and len: "length (entries m) = length (entries y_hat)"
    using index_put_bool_shape [of y_hat "isnan y" NaN m]
    by (simp_all add: mask_prediction_def)
  define blk where "blk = numel (drop (length (shape (isnan y))) (shape y_hat))"
  from assms pre have em: "entries m =
      map (\<lambda>k. if entries (isnan y) ! (k div blk) then NaN else entries y_hat ! k)
          [0..<length (entries y_hat)]"
    by (auto simp: mask_prediction_def index_put_bool_def Let_def blk_def)
  have again: "map (\<lambda>k. if entries (isnan y) ! (k div blk) then NaN else entries m ! k)
            [0..<length (entries m)] = entries m"
    unfolding len by (subst (2) em) (simp add: em)
  have "mask_prediction m y =
      Inr \<lparr>shape = shape m,
           entries = map (\<lambda>k. if entries (isnan y) ! (k div blk) then NaN else entries m ! k)
                         [0..<length (entries m)]\<rparr>"
    using pre sh by (simp add: mask_prediction_def index_put_bool_def Let_def blk_def)
  also have "\<dots> = Inr m"
    unfolding again by simp
  finally show ?thesis .
qed

theorem mask_prediction_idempotent_witness:
  "mask_prediction \<lparr>shape = [2], entries = [Fin 5, Fin 7]\<rparr>
                   \<lparr>shape = [2], entries = [NaN, Fin 2]\<rparr>
     = Inr \<lparr>shape = [2], entries = [NaN, Fin 7]\<rparr>
   \<and> mask_prediction \<lparr>shape = [2], entries = [NaN, Fin 7]\<rparr>
                     \<lparr>shape = [2], entries = [NaN, Fin 2]\<rparr>
     = Inr \<lparr>shape = [2], entries = [NaN, Fin 7]\<rparr>"
proof -
  have h: "mask_prediction \<lparr>shape = [2], entries = [Fin 5, Fin 7]\<rparr>
                           \<lparr>shape = [2], entries = [NaN, Fin 2]\<rparr>
             = Inr \<lparr>shape = [2], entries = [NaN, Fin 7]\<rparr>"
    by (simp add: mask_prediction_def index_put_bool_def isnan_def tmap_def numel_def
                  upt_conv_Cons)
  from h mask_prediction_idempotent [OF h] show ?thesis by simp
qed

subsection \<open>The test-set files\<close>

lemma file_name_append:
  assumes "CHR ''/'' \<notin> set name"
  shows "file_name (dir @ CHR ''/'' # name) = name"
proof -
  have "takeWhile (\<lambda>c. c \<noteq> CHR ''/'') (rev name @ CHR ''/'' # rev dir) = rev name"
    using assms by (auto simp: takeWhile_tail)
  then show ?thesis by (simp add: file_name_def)
qed

lemma upto_days: "[1..13::int] = [1, 2, 3, 4, 5, 6, 7, 8, 9, 10, 11, 12, 13]" "[1..2::int] = [1, 2]"
  by (simp_all add: upto_rec1)

lemma format_02_days:
  "map format_02 (py_range 1 14) =
     [''01'', ''02'', ''03'', ''04'', ''05'', ''06'', ''07'', ''08'', ''09'', ''10'', ''11'',
      ''12'', ''13'']"
  "map format_02 (py_range 1 3) = [''01'', ''02'']"
  by (simp_all add: py_range_def upto_days format_02_def zero_fill_def digit_def)

lemma april_days:
  "consecutive_days \<lparr>year = 2019, month = 4, day = 1\<rparr> 13 =
     map (\<lambda>k. \<lparr>year = 2019, month = 4, day = k\<rparr>) [1, 2, 3, 4, 5, 6, 7, 8, 9, 10, 11, 12, 13]"
  by (simp add: numeral_eq_Suc next_day_def days_in_month_def)

lemma december_days:
  "consecutive_days \<lparr>year = 2019, month = 12, day = 1\<rparr> 2 =
     map (\<lambda>k. \<lparr>year = 2019, month = 12, day = k\<rparr>) [1, 2]"
  by (simp add: numeral_eq_Suc next_day_def days_in_month_def)

lemma april_names:
  "map fwi_file_name (consecutive_days \<lparr>year = 2019, month = 4, day = 1\<rparr> 13) =
     map (\<lambda>d. ''ECMWF_FWI_201904'' @ d @ ''_1200_hr_fwi_e5.nc'')
       [''01'', ''02'', ''03'', ''04'', ''05'', ''06'', ''07'', ''08'', ''09'', ''10'', ''11'',
        ''12'', ''13'']"
  unfolding april_days
  by (simp add: fwi_file_name_def yyyymmdd_def zero_fill_def digit_def)

lemma december_names:
  "map fwi_file_name (consecutive_days \<lparr>year = 2019, month = 12, day = 1\<rparr> 2) =
     map (\<lambda>d. ''ECMWF_FWI_201912'' @ d @ ''_1200_hr_fwi_e5.nc'') [''01'', ''02'']"
  unfolding december_days
  by (simp add: fwi_file_name_def yyyymmdd_def zero_fill_def digit_def)

lemma file_names_4_10:
  assumes "\<forall>d \<in> set ds. CHR ''/'' \<notin> set d"
  shows "map file_name
           (map (\<lambda>d. ''/nvme0/fwi-reanalysis/ECMWF_FWI_201904'' @ d @ ''_1200_hr_fwi_e5.nc'') ds)
         = map (\<lambda>d. ''ECMWF_FWI_201904'' @ d @ ''_1200_hr_fwi_e5.nc'') ds"
proof -
  have "file_name (''/nvme0/fwi-reanalysis/ECMWF_FWI_201904'' @ d @ ''_1200_hr_fwi_e5.nc'')
          = ''ECMWF_FWI_201904'' @ d @ ''_1200_hr_fwi_e5.nc''" if "d \<in> set ds" for d
    using file_name_append
      [of "''ECMWF_FWI_201904'' @ d @ ''_1200_hr_fwi_e5.nc''" "''/nvme0/fwi-reanalysis''"]
      assms that
    by simp
  then show ?thesis by simp
qed

lemma file_names_2_1:
  assumes "\<forall>d \<in> set ds. CHR ''/'' \<notin> set d"
  shows "map file_name
           (map (\<lambda>d. ''./deepfwi-mini-sample/fwi-reanalysis/ECMWF_FWI_201912'' @ d
                      @ ''_1200_hr_fwi_e5.nc'') ds)
         = map (\<lambda>d. ''ECMWF_FWI_201912'' @ d @ ''_1200_hr_fwi_e5.nc'') ds"
proof -
  have "file_name (''./deepfwi-mini-sample/fwi-reanalysis/ECMWF_FWI_201912'' @ d
                    @ ''_1200_hr_fwi_e5.nc'')
          = ''ECMWF_FWI_201912'' @ d @ ''_1200_hr_fwi_e5.nc''" if "d \<in> set ds" for d
    using file_name_append
      [of "''ECMWF_FWI_201912'' @ d @ ''_1200_hr_fwi_e5.nc''"
          "''./deepfwi-mini-sample/fwi-reanalysis''"]
      assms that
    by simp
  then show ?thesis by simp
qed

text \<open>
  C5: the names of the files of \<^verbatim>\<open>test_out_files\<close> are the names
  \<^verbatim>\<open>ECMWF_FWI_<YYYYMMDD>_1200_hr_fwi_e5.nc\<close> of consecutive calendar days in increasing
  order: the thirteen days from 2019-04-01 in the 4-in/10-out notebook (the last one being
  2019-04-13), the two days from 2019-12-01 in the 2-in/1-out notebook (the last one being
  2019-12-02). Every one of these days is a day of the calendar.
\<close>

theorem test_out_files_named_by_date:
  "map file_name test_out_files_4_10
     = map fwi_file_name (consecutive_days \<lparr>year = 2019, month = 4, day = 1\<rparr> 13)
   \<and> last (consecutive_days \<lparr>year = 2019, month = 4, day = 1\<rparr> 13)
       = \<lparr>year = 2019, month = 4, day = 13\<rparr>
   \<and> list_all valid_date (consecutive_days \<lparr>year = 2019, month = 4, day = 1\<rparr> 13)
   \<and> map file_name test_out_files_2_1
       = map fwi_file_name (consecutive_days \<lparr>year = 2019, month = 12, day = 1\<rparr> 2)
   \<and> last (consecutive_days \<lparr>year = 2019, month = 12, day = 1\<rparr> 2)
       = \<lparr>year = 2019, month = 12, day = 2\<rparr>
   \<and> list_all valid_date (consecutive_days \<lparr>year = 2019, month = 12, day = 1\<rparr> 2)"
proof -
  have a: "map file_name test_out_files_4_10
     = map fwi_file_name (consecutive_days \<lparr>year = 2019, month = 4, day = 1\<rparr> 13)"
  proof -
    have h: "test_out_files_4_10 =
        map (\<lambda>d. ''/nvme0/fwi-reanalysis/ECMWF_FWI_201904'' @ d @ ''_1200_hr_fwi_e5.nc'')
            (map format_02 (py_range 1 14))"
      by (simp add: test_out_files_4_10_def comp_def)
    show ?thesis
      unfolding h april_names format_02_days(1)
      by (rule file_names_4_10) simp
  qed
  have b: "map file_name test_out_files_2_1
       = map fwi_file_name (consecutive_days \<lparr>year = 2019, month = 12, day = 1\<rparr> 2)"
  proof -
    have h: "test_out_files_2_1 =
        map (\<lambda>d. ''./deepfwi-mini-sample/fwi-reanalysis/ECMWF_FWI_201912'' @ d
                  @ ''_1200_hr_fwi_e5.nc'')
            (map format_02 (py_range 1 3))"
      by (simp add: test_out_files_2_1_def comp_def)
    show ?thesis
      unfolding h december_names format_02_days(2)
      by (rule file_names_2_1) simp
  qed
  have c: "last (consecutive_days \<lparr>year = 2019, month = 4, day = 1\<rparr> 13)
             = \<lparr>year = 2019, month = 4, day = 13\<rparr>"
    unfolding april_days by simp
  have d: "list_all valid_date (consecutive_days \<lparr>year = 2019, month = 4, day = 1\<rparr> 13)"
    unfolding april_days by (simp add: valid_date_def days_in_month_def)
  have e: "last (consecutive_days \<lparr>year = 2019, month = 12, day = 1\<rparr> 2)
             = \<lparr>year = 2019, month = 12, day = 2\<rparr>"
    unfolding december_days by simp
  have f: "list_all valid_date (consecutive_days \<lparr>year = 2019, month = 12, day = 1\<rparr> 2)"
    unfolding december_days by (simp add: valid_date_def days_in_month_def)
  from a b c d e f show ?thesis by blast
qed

subsection \<open>Slices\<close>

lemma concat_map_uniform:
  assumes "\<forall>x \<in> set xs. length (f x) = n"
  shows "length (concat (map f xs)) = length xs * n"
    and "i < length xs \<Longrightarrow> j < n \<Longrightarrow> concat (map f xs) ! (i * n + j) = f (xs ! i) ! j"
  using assms
proof (induction xs arbitrary: i)
  case Nil
  { case 1 show ?case by simp }
  { case 2 then show ?case by simp }
next
  case (Cons x xs)
  { case 1 then show ?case using Cons.IH(1) by simp }
  { case 2
    show ?case
    proof (cases i)
      case 0
      with 2 show ?thesis by (simp add: nth_append)
    next
      case (Suc i')
      with 2 Cons.IH(2) [of i'] show ?thesis by (simp add: nth_append add.assoc)
    qed }
qed

lemma take_one_drop: "k < length xs \<Longrightarrow> take (Suc 0) (drop k xs) = [xs ! k]"
  by (simp add: take_Suc_conv_app_nth)

lemma concat_singletons:
  "(\<forall>x \<in> set xs. f x = [g x]) \<Longrightarrow> concat (map f xs) = map g xs"
  by (induction xs) auto

lemma index2_less:
  fixes r c H W :: nat
  assumes "r < H" and "c < W"
  shows "r * W + c < H * W"
proof -
  have "r * W + c < Suc r * W" using assms(2) by simp
  also have "\<dots> \<le> H * W" using assms(1) by (intro mult_le_mono1) simp
  finally show ?thesis .
qed

lemma index3_less:
  fixes n r c D H W :: nat
  assumes "n < D" and "r < H" and "c < W"
  shows "(n * H + r) * W + c < D * H * W"
  using index2_less [OF index2_less [OF assms(1,2)] assms(3)] .

text \<open>The entries of a two-dimensional slice, one by one.\<close>

lemma grid_slice_entries:
  assumes "base + r1 \<le> H" and "c1 \<le> W" and "H * W \<le> length es"
  shows "concat (map (\<lambda>r. concat (map (\<lambda>c. take (Suc 0) (drop ((base + r) * W + c) es))
                                      [c0..<c1])) [r0..<r1])
       = concat (map (\<lambda>r. map (\<lambda>c. es ! ((base + r) * W + c)) [c0..<c1]) [r0..<r1])"
proof -
  have "concat (map (\<lambda>c. take (Suc 0) (drop ((base + r) * W + c) es)) [c0..<c1])
          = map (\<lambda>c. es ! ((base + r) * W + c)) [c0..<c1]" if "r < r1" for r
  proof -
    have "take (Suc 0) (drop ((base + r) * W + c) es) = [es ! ((base + r) * W + c)]"
      if "c < c1" for c
    proof -
      have "(base + r) * W + c < H * W"
        using \<open>r < r1\<close> \<open>c < c1\<close> assms(1,2) by (intro index2_less) simp_all
      with assms(3) show ?thesis by (intro take_one_drop) simp
    qed
    then show ?thesis by (intro concat_singletons) simp
  qed
  then have "map (\<lambda>r. concat (map (\<lambda>c. take (Suc 0) (drop ((base + r) * W + c) es)) [c0..<c1]))
                 [r0..<r1]
           = map (\<lambda>r. map (\<lambda>c. es ! ((base + r) * W + c)) [c0..<c1]) [r0..<r1]"
    by (intro map_cong) simp_all
  then show ?thesis by (rule arg_cong)
qed

lemma grid_slice_nth:
  assumes "r < r1 - r0" and "c < c1 - c0"
  shows "concat (map (\<lambda>r. map (\<lambda>c. f r c) [c0..<c1]) [r0..<r1]) ! (r * (c1 - c0) + c)
           = f (r0 + r) (c0 + c)"
  using concat_map_uniform(2)
    [of "[r0..<r1]" "\<lambda>r. map (\<lambda>c. f r c) [c0..<c1]" "c1 - c0" r c] assms
  by simp

lemma slice_range_length: "length (slice_range a b n) = min b n - min a n"
  by (simp add: slice_range_def)

lemma slice_rows_cols_grid:
  fixes a b c d H W :: nat and t :: "'a tensor"
  assumes sh: "shape t = [H, W]" and ws: "well_shaped t"
  defines "h \<equiv> min b H - min a H" and "w \<equiv> min d W - min c W"
  shows "\<exists>s. slice_rows_cols a b c d t = Inr s \<and> shape s = [h, w]
           \<and> (\<forall>r < h. \<forall>k < w. entry_at s [r, k] = entry_at t [a + r, c + k])"
proof -
  have len: "H * W \<le> length (entries t)"
    using sh ws by (simp add: well_shaped_def numel_def)
  let ?s = "\<lparr>shape = [h, w],
             entries = concat (map (\<lambda>r. map (\<lambda>k. entries t ! (r * W + k)) [min c W..<min d W])
                                   [min a H..<min b H])\<rparr>"
  have eq: "slice_rows_cols a b c d t = Inr ?s"
    using grid_slice_entries [of 0 "min b H" H "min d W" W "entries t" "min c W" "min a H"] len
    by (simp add: slice_rows_cols_def sh slice_range_def numel_def h_def w_def)
  have "entry_at ?s [r, k] = entry_at t [a + r, c + k]" if "r < h" and "k < w" for r k
  proof -
    from that have a: "min a H = a" and c: "min c W = c"
      by (auto simp: h_def w_def min_def split: if_splits)
    from that show ?thesis
      using grid_slice_nth [of r "min b H" "min a H" k "min d W" "min c W"
                               "\<lambda>r k. entries t ! (r * W + k)"]
      by (simp add: entry_at_def offset_def sh h_def w_def a c)
  qed
  with eq show ?thesis by auto
qed

lemma slice_all_rows_cols_grid:
  fixes a b c d D H W :: nat and t :: "'a tensor"
  assumes sh: "shape t = [D, H, W]" and ws: "well_shaped t"
  defines "h \<equiv> min b H - min a H" and "w \<equiv> min d W - min c W"
  shows "\<exists>s. slice_all_rows_cols a b c d t = Inr s \<and> shape s = [D, h, w]
           \<and> (\<forall>n < D. \<forall>r < h. \<forall>k < w. entry_at s [n, r, k] = entry_at t [n, a + r, c + k])"
proof -
  have len: "D * H * W \<le> length (entries t)"
    using sh ws by (simp add: well_shaped_def numel_def)
  define day where "day n = concat (map (\<lambda>r. map (\<lambda>k. entries t ! ((n * H + r) * W + k))
                                            [min c W..<min d W]) [min a H..<min b H])" for n
  let ?s = "\<lparr>shape = [D, h, w], entries = concat (map day [0..<D])\<rparr>"
  have block: "concat (map (\<lambda>r. concat (map (\<lambda>k.
                   take (Suc 0) (drop ((n * H + r) * W + k) (entries t)))
                   [min c W..<min d W])) [min a H..<min b H]) = day n" if "n < D" for n
  proof -
    have "n * H + min b H \<le> D * H"
    proof -
      have "n * H + min b H \<le> Suc n * H" by simp
      also have "\<dots> \<le> D * H" using that by (intro mult_le_mono1) simp
      finally show ?thesis .
    qed
    then show ?thesis
      unfolding day_def
      using len by (intro grid_slice_entries [of "n * H" _ "D * H"]) simp_all
  qed
  have "map (\<lambda>n. concat (map (\<lambda>r. concat (map (\<lambda>k.
                   take (Suc 0) (drop ((n * H + r) * W + k) (entries t)))
                   [min c W..<min d W])) [min a H..<min b H])) [0..<D] = map day [0..<D]"
    by (intro map_cong) (simp_all add: block)
  then have eq: "slice_all_rows_cols a b c d t = Inr ?s"
    by (simp add: slice_all_rows_cols_def sh slice_range_def numel_def h_def w_def
             del: map_eq_conv)
  have day_len: "length (day n) = h * w" for n
    unfolding day_def h_def w_def
    using concat_map_uniform(1)
      [of "[min a H..<min b H]"
          "\<lambda>r. map (\<lambda>k. entries t ! ((n * H + r) * W + k)) [min c W..<min d W]"
          "min d W - min c W"]
    by simp
  have "entry_at ?s [n, r, k] = entry_at t [n, a + r, c + k]"
    if "n < D" and "r < h" and "k < w" for n r k
  proof -
    from that have a: "min a H = a" and c: "min c W = c"
      by (auto simp: h_def w_def min_def split: if_splits)
    have pos: "r * w + k < h * w"
      using that by (intro index2_less)
    have "entry_at ?s [n, r, k] = concat (map day [0..<D]) ! (n * (h * w) + (r * w + k))"
      by (simp add: entry_at_def offset_def algebra_simps)
    also have "\<dots> = day ([0..<D] ! n) ! (r * w + k)"
      using that pos by (intro concat_map_uniform(2)) (simp_all add: day_len)
    also have "\<dots> = day n ! (r * w + k)"
      using that by simp
    also have "\<dots> = entries t ! ((n * H + (a + r)) * W + (c + k))"
      unfolding day_def
      using that grid_slice_nth [of r "min b H" "min a H" k "min d W" "min c W"
                                    "\<lambda>r k. entries t ! ((n * H + r) * W + k)"]
      by (simp add: h_def w_def a c)
    also have "\<dots> = entry_at t [n, a + r, c + k]"
      by (simp add: entry_at_def offset_def sh)
    finally show ?thesis .
  qed
  with eq show ?thesis by auto
qed

lemma case_study_4_10_region:
  fixes y y_hat :: "fval tensor" and msk :: "bool tensor"
  assumes "shape y = [1, D, H, W]" and "shape y_hat = [1, D, H, W]" and "shape msk = [H, W]"
    and "well_shaped y" and "well_shaped y_hat" and "well_shaped msk"
  defines "h \<equiv> min 480 H - min 355 H" and "w \<equiv> min 550 W - min 400 W"
  shows "\<exists>yc yhc mc. case_study_4_10 y y_hat msk = Inr (yc, yhc, mc)
            \<and> shape yc = [D, h, w] \<and> shape yhc = [D, h, w] \<and> shape mc = [h, w]
            \<and> (\<forall>n < D. \<forall>r < h. \<forall>k < w.
                  entry_at yc [n, r, k] = entry_at y [0, n, 355 + r, 400 + k]
                \<and> entry_at yhc [n, r, k] = entry_at y_hat [0, n, 355 + r, 400 + k]
                \<and> entry_at mc [r, k] = entry_at msk [355 + r, 400 + k])"
proof -
  let ?yb = "\<lparr>shape = [D, H, W], entries = entries y\<rparr>"
  let ?hb = "\<lparr>shape = [D, H, W], entries = entries y_hat\<rparr>"
  have y0: "select0 y 0 = Inr ?yb" and h0: "select0 y_hat 0 = Inr ?hb"
    using assms(1,2,4,5) by (simp_all add: select0_def well_shaped_def numel_def)
  have ws: "well_shaped ?yb" "well_shaped ?hb"
    using assms(1,2,4,5) by (simp_all add: well_shaped_def numel_def)
  obtain yc where yc: "slice_all_rows_cols 355 480 400 550 ?yb = Inr yc" "shape yc = [D, h, w]"
    "\<forall>n < D. \<forall>r < h. \<forall>k < w. entry_at yc [n, r, k] = entry_at ?yb [n, 355 + r, 400 + k]"
    using slice_all_rows_cols_grid [of ?yb D H W 355 480 400 550] ws(1)
    unfolding h_def w_def by auto
  obtain yhc where yhc: "slice_all_rows_cols 355 480 400 550 ?hb = Inr yhc"
    "shape yhc = [D, h, w]"
    "\<forall>n < D. \<forall>r < h. \<forall>k < w. entry_at yhc [n, r, k] = entry_at ?hb [n, 355 + r, 400 + k]"
    using slice_all_rows_cols_grid [of ?hb D H W 355 480 400 550] ws(2)
    unfolding h_def w_def by auto
  obtain mc where mc: "slice_rows_cols 355 480 400 550 msk = Inr mc" "shape mc = [h, w]"
    "\<forall>r < h. \<forall>k < w. entry_at mc [r, k] = entry_at msk [355 + r, 400 + k]"
    using slice_rows_cols_grid [of msk H W 355 480 400 550] assms(3,6)
    unfolding h_def w_def by auto
  have run: "case_study_4_10 y y_hat msk = Inr (yc, yhc, mc)"
    by (simp add: case_study_4_10_def case_slice_days_def case_slice_mask_def ebind_def
                  y0 h0 yc(1) yhc(1) mc(1))
  have same: "entry_at ?yb [n, r, k] = entry_at y [0, n, r, k]"
             "entry_at ?hb [n, r, k] = entry_at y_hat [0, n, r, k]" for n r k
    using assms(1,2) by (simp_all add: entry_at_def offset_def)
  from run yc(2,3) yhc(2,3) mc(2,3) show ?thesis
    by (simp add: same)
qed

lemma select0_first_day:
  assumes "0 < D" and "D * H * W \<le> length es"
  shows "select0 \<lparr>shape = [D, H, W], entries = es\<rparr> 0
           = Inr \<lparr>shape = [H, W], entries = take (H * W) es\<rparr>"
    and "well_shaped \<lparr>shape = [H, W], entries = take (H * W) es\<rparr>"
proof -
  have "H * W \<le> D * (H * W)"
    using assms(1) by simp
  also have "\<dots> = D * H * W" by simp
  also note assms(2)
  finally have "H * W \<le> length es" .
  then show "well_shaped \<lparr>shape = [H, W], entries = take (H * W) es\<rparr>"
    by (simp add: well_shaped_def numel_def)
  show "select0 \<lparr>shape = [D, H, W], entries = es\<rparr> 0
           = Inr \<lparr>shape = [H, W], entries = take (H * W) es\<rparr>"
    using assms(1) by (simp add: select0_def numel_def)
qed

lemma case_study_2_1_region:
  fixes y y_hat :: "fval tensor" and msk :: "bool tensor"
  assumes "shape y = [1, D, H, W]" and "shape y_hat = [1, D, H, W]" and "shape msk = [H, W]"
    and "well_shaped y" and "well_shaped y_hat" and "well_shaped msk" and "0 < D"
  defines "h \<equiv> min 480 H - min 355 H" and "w \<equiv> min 550 W - min 400 W"
  shows "\<exists>yc yhc mc. case_study_2_1 y y_hat msk = Inr (yc, yhc, mc)
            \<and> shape yc = [h, w] \<and> shape yhc = [h, w] \<and> shape mc = [h, w]
            \<and> (\<forall>r < h. \<forall>k < w.
                  entry_at yc [r, k] = entry_at y [0, 0, 355 + r, 400 + k]
                \<and> entry_at yhc [r, k] = entry_at y_hat [0, 0, 355 + r, 400 + k]
                \<and> entry_at mc [r, k] = entry_at msk [355 + r, 400 + k])"
proof -
  let ?yb = "\<lparr>shape = [D, H, W], entries = entries y\<rparr>"
  let ?hb = "\<lparr>shape = [D, H, W], entries = entries y_hat\<rparr>"
  let ?yd = "\<lparr>shape = [H, W], entries = take (H * W) (entries y)\<rparr>"
  let ?hd = "\<lparr>shape = [H, W], entries = take (H * W) (entries y_hat)\<rparr>"
  have y0: "select0 y 0 = Inr ?yb" and h0: "select0 y_hat 0 = Inr ?hb"
    using assms(1,2,4,5) by (simp_all add: select0_def well_shaped_def numel_def)
  have len: "D * H * W \<le> length (entries y)" "D * H * W \<le> length (entries y_hat)"
    using assms(1,2,4,5) by (simp_all add: well_shaped_def numel_def mult.assoc)
  note y00 = select0_first_day [OF \<open>0 < D\<close> len(1)]
  note h00 = select0_first_day [OF \<open>0 < D\<close> len(2)]
  obtain yc where yc: "slice_rows_cols 355 480 400 550 ?yd = Inr yc" "shape yc = [h, w]"
    "\<forall>r < h. \<forall>k < w. entry_at yc [r, k] = entry_at ?yd [355 + r, 400 + k]"
    using slice_rows_cols_grid [of ?yd H W 355 480 400 550] y00(2)
    unfolding h_def w_def by auto
  obtain yhc where yhc: "slice_rows_cols 355 480 400 550 ?hd = Inr yhc" "shape yhc = [h, w]"
    "\<forall>r < h. \<forall>k < w. entry_at yhc [r, k] = entry_at ?hd [355 + r, 400 + k]"
    using slice_rows_cols_grid [of ?hd H W 355 480 400 550] h00(2)
    unfolding h_def w_def by auto
  obtain mc where mc: "slice_rows_cols 355 480 400 550 msk = Inr mc" "shape mc = [h, w]"
    "\<forall>r < h. \<forall>k < w. entry_at mc [r, k] = entry_at msk [355 + r, 400 + k]"
    using slice_rows_cols_grid [of msk H W 355 480 400 550] assms(3,6)
    unfolding h_def w_def by auto
  have run: "case_study_2_1 y y_hat msk = Inr (yc, yhc, mc)"
    by (simp add: case_study_2_1_def case_slice_one_def case_slice_mask_def ebind_def
                  y0 h0 y00(1) h00(1) yc(1) yhc(1) mc(1))
  have same: "entry_at ?yd [355 + r, 400 + k] = entry_at y [0, 0, 355 + r, 400 + k]"
             "entry_at ?hd [355 + r, 400 + k] = entry_at y_hat [0, 0, 355 + r, 400 + k]"
    if "r < h" and "k < w" for r k
  proof -
    from that have "355 + r < H" and "400 + k < W"
      by (auto simp: h_def w_def min_def split: if_splits)
    then have "(355 + r) * W + (400 + k) < H * W"
      by (rule index2_less)
    then show "entry_at ?yd [355 + r, 400 + k] = entry_at y [0, 0, 355 + r, 400 + k]"
         "entry_at ?hd [355 + r, 400 + k] = entry_at y_hat [0, 0, 355 + r, 400 + k]"
      using assms(1,2) by (simp_all add: entry_at_def offset_def)
  qed
  from run yc(2,3) yhc(2,3) mc(2,3) show ?thesis
    by (simp add: same)
qed

text \<open>
  C9: for a ground truth and a prediction of shape \<open>(1, D, H, W)\<close> and a mask of shape
  \<open>(H, W)\<close>, the case-study cell of either notebook succeeds, the three slices have the
  same spatial shape, and the cell \<open>(r, k)\<close> of each slice is the cell
  \<open>(355 + r, 400 + k)\<close> of the tensor it was cut from: rows 355 to 479 and columns 400
  to 549, as far as the grid has them. The 2-in/1-out notebook takes day 0, which needs
  \<open>D > 0\<close>.
\<close>

theorem case_study_same_region:
  fixes y y_hat :: "fval tensor" and msk :: "bool tensor"
  assumes "shape y = [1, D, H, W]" and "shape y_hat = [1, D, H, W]" and "shape msk = [H, W]"
    and "well_shaped y" and "well_shaped y_hat" and "well_shaped msk"
  defines "h \<equiv> min 480 H - min 355 H" and "w \<equiv> min 550 W - min 400 W"
  shows "(\<exists>yc yhc mc. case_study_4_10 y y_hat msk = Inr (yc, yhc, mc)
            \<and> shape yc = [D, h, w] \<and> shape yhc = [D, h, w] \<and> shape mc = [h, w]
            \<and> (\<forall>n < D. \<forall>r < h. \<forall>k < w.
                  entry_at yc [n, r, k] = entry_at y [0, n, 355 + r, 400 + k]
                \<and> entry_at yhc [n, r, k] = entry_at y_hat [0, n, 355 + r, 400 + k]
                \<and> entry_at mc [r, k] = entry_at msk [355 + r, 400 + k]))
       \<and> (0 < D \<longrightarrow>
           (\<exists>yc yhc mc. case_study_2_1 y y_hat msk = Inr (yc, yhc, mc)
            \<and> shape yc = [h, w] \<and> shape yhc = [h, w] \<and> shape mc = [h, w]
            \<and> (\<forall>r < h. \<forall>k < w.
                  entry_at yc [r, k] = entry_at y [0, 0, 355 + r, 400 + k]
                \<and> entry_at yhc [r, k] = entry_at y_hat [0, 0, 355 + r, 400 + k]
                \<and> entry_at mc [r, k] = entry_at msk [355 + r, 400 + k])))"
  unfolding h_def w_def
  using case_study_4_10_region [OF assms(1-6)] case_study_2_1_region [OF assms(1-6)]
  by blast

theorem case_study_same_region_witness:
  "(\<exists>yc yhc mc.
      case_study_4_10 \<lparr>shape = [1, 1, 356, 401], entries = replicate 142756 (Fin 1)\<rparr>
                      \<lparr>shape = [1, 1, 356, 401], entries = replicate 142756 (Fin 2)\<rparr>
                      \<lparr>shape = [356, 401], entries = replicate 142756 True\<rparr>
        = Inr (yc, yhc, mc)
      \<and> shape yc = [1, 1, 1] \<and> shape yhc = [1, 1, 1] \<and> shape mc = [1, 1]
      \<and> entry_at yc [0, 0, 0] = Fin 1 \<and> entry_at yhc [0, 0, 0] = Fin 2
      \<and> entry_at mc [0, 0] = True)
   \<and> (\<exists>yc yhc mc.
      case_study_2_1 \<lparr>shape = [1, 1, 356, 401], entries = replicate 142756 (Fin 1)\<rparr>
                     \<lparr>shape = [1, 1, 356, 401], entries = replicate 142756 (Fin 2)\<rparr>
                     \<lparr>shape = [356, 401], entries = replicate 142756 True\<rparr>
        = Inr (yc, yhc, mc)
      \<and> shape yc = [1, 1] \<and> shape yhc = [1, 1] \<and> shape mc = [1, 1]
      \<and> entry_at yc [0, 0] = Fin 1 \<and> entry_at yhc [0, 0] = Fin 2
      \<and> entry_at mc [0, 0] = True)"
  using case_study_same_region
    [of "\<lparr>shape = [1, 1, 356, 401], entries = replicate 142756 (Fin 1)\<rparr>" 1 356 401
        "\<lparr>shape = [1, 1, 356, 401], entries = replicate 142756 (Fin 2)\<rparr>"
        "\<lparr>shape = [356, 401], entries = replicate 142756 True\<rparr>"]
  by (simp add: well_shaped_def numel_def entry_at_def offset_def)

subsection \<open>The accuracy\<close>













subsection \<open>The options of the hyperparameter builder\<close>

lemma call_names:
  "map fst get_hparams_call_4_10 =
     [''init_features'', ''in_days'', ''out_days'', ''loss'', ''batch_size'', ''gpus'',
      ''case_study'', ''clip_fwi'', ''test_set'', ''model'', ''out'', ''forcings_dir'',
      ''reanalysis_dir'', ''mask'', ''checkpoint_file'']"
  "map fst get_hparams_call_2_1 =
     [''init_features'', ''in_days'', ''out_days'', ''loss'', ''batch_size'', ''gpus'',
      ''case_study'', ''clip_fwi'', ''test_set'', ''model'', ''out'', ''forcings_dir'',
      ''reanalysis_dir'', ''mask'', ''checkpoint_file'']"
  by (simp_all add: get_hparams_call_4_10_def get_hparams_call_2_1_def)

text \<open>
  C2, as stated, fails: the call of the 4-in/10-out notebook does not pass a Box-Cox
  lambda, and it passes \<^verbatim>\<open>clip_fwi\<close>, which is not among the listed options.
\<close>

theorem get_hparams_call_counterexample:
  "''boxcox'' \<notin> set (map fst get_hparams_call_4_10)
   \<and> ''clip_fwi'' \<in> set (map fst get_hparams_call_4_10)
   \<and> ''clip_fwi'' \<notin> set listed_options"
  unfolding call_names listed_options_def by simp

text \<open>
  C2, amended: both calls pass exactly the same fifteen named options, namely the listed
  ones except the Box-Cox lambda, and \<^verbatim>\<open>clip_fwi\<close>, \<^verbatim>\<open>test_set\<close>, \<^verbatim>\<open>model\<close>, \<^verbatim>\<open>out\<close>,
  \<^verbatim>\<open>forcings_dir\<close> and \<^verbatim>\<open>reanalysis_dir\<close>. Each notebook calls \<^verbatim>\<open>get_hparams\<close> once, and
  sets the Box-Cox lambda later, by the assignment \<^verbatim>\<open>hparams.boxcox = 0.1182\<close>.
\<close>

theorem get_hparams_call_options:
  "map fst get_hparams_call_4_10 =
     [''init_features'', ''in_days'', ''out_days'', ''loss'', ''batch_size'', ''gpus'',
      ''case_study'', ''clip_fwi'', ''test_set'', ''model'', ''out'', ''forcings_dir'',
      ''reanalysis_dir'', ''mask'', ''checkpoint_file'']
   \<and> map fst get_hparams_call_2_1 = map fst get_hparams_call_4_10
   \<and> set listed_options - {''boxcox''} \<subseteq> set (map fst get_hparams_call_4_10)
   \<and> ''boxcox'' \<notin> set (map fst get_hparams_call_4_10)
   \<and> (\<exists>pre mid post.
         notebook_4_10 = pre @ [GetHparams get_hparams_call_4_10] @ mid
                           @ [SetHparam ''boxcox'' (PFloat 0.1182)] @ post
         \<and> filter (\<lambda>st. \<exists>kw. st = GetHparams kw) (pre @ mid @ post) = [])
   \<and> (\<exists>pre mid post.
         notebook_2_1 = pre @ [GetHparams get_hparams_call_2_1] @ mid
                          @ [SetHparam ''boxcox'' (PFloat 0.1182)] @ post
         \<and> filter (\<lambda>st. \<exists>kw. st = GetHparams kw) (pre @ mid @ post) = [])"
proof -
  have a: "set listed_options - {''boxcox''} \<subseteq> set (map fst get_hparams_call_4_10)"
    unfolding call_names listed_options_def by auto
  have b: "''boxcox'' \<notin> set (map fst get_hparams_call_4_10)"
    unfolding call_names by simp
  have c: "\<exists>pre mid post.
         notebook_4_10 = pre @ [GetHparams get_hparams_call_4_10] @ mid
                           @ [SetHparam ''boxcox'' (PFloat 0.1182)] @ post
         \<and> filter (\<lambda>st. \<exists>kw. st = GetHparams kw) (pre @ mid @ post) = []"
    apply (rule exI [of _ "take 31 notebook_4_10"])
    apply (rule exI [of _ "take 20 (drop 32 notebook_4_10)"])
    apply (rule exI [of _ "drop 53 notebook_4_10"])
    apply (simp add: notebook_4_10_def importing_train_def importing_installed_def
        ensuring_reproducibility_def setting_flag_def preparing_model_def manual_inference_def
        boxcox_inference_def bulk_inference_def)
    done
  have d: "\<exists>pre mid post.
         notebook_2_1 = pre @ [GetHparams get_hparams_call_2_1] @ mid
                          @ [SetHparam ''boxcox'' (PFloat 0.1182)] @ post
         \<and> filter (\<lambda>st. \<exists>kw. st = GetHparams kw) (pre @ mid @ post) = []"
    apply (rule exI [of _ "take 30 notebook_2_1"])
    apply (rule exI [of _ "take 20 (drop 31 notebook_2_1)"])
    apply (rule exI [of _ "drop 52 notebook_2_1"])
    apply (simp add: notebook_2_1_def importing_train_def importing_installed_def
        ensuring_reproducibility_def setting_flag_def preparing_model_def manual_inference_def
        boxcox_inference_def bulk_inference_def)
    done
  from a b c d call_names show ?thesis by simp
qed

subsection \<open>Running statements\<close>

lemmas cells = notebook_4_10_def notebook_2_1_def importing_train_def importing_installed_def
  ensuring_reproducibility_def setting_flag_def preparing_model_def manual_inference_def
  boxcox_inference_def bulk_inference_def

lemma ebind_Inr_iff: "ebind r f = Inr v \<longleftrightarrow> (\<exists>a. r = Inr a \<and> f a = Inr v)"
  by (cases r) (simp_all add: ebind_def)

lemma var_Inr_iff: "var n v = Inr a \<longleftrightarrow> v = Some a"
  by (cases v) (simp_all add: var_def)

lemma attr_Inr_iff: "attr ns n = Inr a \<longleftrightarrow> ns n = Some a"
  by (cases "ns n") (simp_all add: attr_def)

lemma run_Cons_done:
  "run w (st # rest) s = (completed, s', None) \<longleftrightarrow>
     (\<exists>s1 c. exec w st s = Inr s1 \<and> run w rest s1 = (c, s', None) \<and> completed = st # c)"
  by (auto split: sum.splits prod.splits)

lemma run_Nil_done: "run w [] s = (completed, s', None) \<longleftrightarrow> completed = [] \<and> s' = s"
  by auto

subsection \<open>The inverse Box-Cox transform and the mask\<close>

lemma manual_inference_result:
  assumes "run w manual_inference s = (completed, s', None)"
  shows "\<exists>m x y raw g g' masked.
           v_model s = Some m \<and> v_x s' = Some x \<and> v_y s' = Some y
         \<and> model_call w m x g = Inr (raw, g')
         \<and> mask_prediction raw y = Inr masked \<and> v_y_hat s' = Some masked"
  using assms
  unfolding manual_inference_def
  apply (simp only: run_Cons_done run_Nil_done)
  apply (clarsimp simp: ebind_Inr_iff var_Inr_iff split: prod.splits)
  apply blast
  done

lemma boxcox_inference_result:
  assumes "run w boxcox_inference s = (completed, s', None)"
  shows "\<exists>m x y raw g g' hp v lmbda masked.
           v_model s = Some m \<and> v_x s' = Some x \<and> v_y s' = Some y
         \<and> model_call w m x g = Inr (raw, g')
         \<and> model_hparams w m = Inr hp \<and> hp ''boxcox'' = Some v \<and> as_number v = Inr lmbda
         \<and> mask_prediction (tmap (\<lambda>u. inv_boxcox w u lmbda) raw) y = Inr masked
         \<and> v_y_hat s' = Some masked"
  using assms
  unfolding boxcox_inference_def
  apply (simp only: run_Cons_done run_Nil_done)
  apply (clarsimp simp: ebind_Inr_iff var_Inr_iff attr_Inr_iff split: prod.splits)
  apply blast
  done

lemma inference_cells_4_10:
  "\<exists>a b c ckpt.
      notebook_4_10 = a @ manual_inference @ b
        @ [SetHparam ''boxcox'' (PFloat 0.1182), SetHparam ''checkpoint_file'' ckpt]
        @ preparing_model @ boxcox_inference @ c
    \<and> filter (\<lambda>st. st = InvBoxcox \<or> (\<exists>v. st = SetHparam ''boxcox'' v))
             (a @ manual_inference @ b) = []"
  apply (rule exI [of _ "take 37 notebook_4_10"])
  apply (rule exI [of _ "take 11 (drop 41 notebook_4_10)"])
  apply (rule exI [of _ "drop 62 notebook_4_10"])
  apply (rule exI [of _ "PStr ''/w/deepfwi/src/model/checkpoints/pre_trained/7/4_10/epoch_99_100.ckpt''"])
  apply (simp add: cells)
  done

lemma inference_cells_2_1:
  "\<exists>a b c ckpt.
      notebook_2_1 = a @ manual_inference @ b
        @ [SetHparam ''boxcox'' (PFloat 0.1182), SetHparam ''checkpoint_file'' ckpt]
        @ preparing_model @ boxcox_inference @ c
    \<and> filter (\<lambda>st. st = InvBoxcox \<or> (\<exists>v. st = SetHparam ''boxcox'' v))
             (a @ manual_inference @ b) = []"
  apply (rule exI [of _ "take 36 notebook_2_1"])
  apply (rule exI [of _ "take 11 (drop 40 notebook_2_1)"])
  apply (rule exI [of _ "drop 61 notebook_2_1"])
  apply (rule exI [of _ "PStr ''../src/model/checkpoints/pre_trained/7/2_1/epoch_41_100.ckpt''"])
  apply (simp add: cells)
  done


text \<open>
  C3: the inverse Box-Cox transform is optional and comes before the mask. Whenever the
  manual inference cell completes, the prediction it leaves is the output of the forward
  pass, masked by the ground truth, with no transform. Whenever the Box-Cox inference
  cell completes, the hyperparameters of the model have a Box-Cox lambda, and the
  prediction it leaves is the output of the forward pass, transformed entry by entry by
  \<^verbatim>\<open>inv_boxcox\<close> with that lambda, and then masked by the ground truth. In both notebooks
  the manual inference cell runs before anything sets the lambda or applies the
  transform, and the Box-Cox inference cell runs on the model prepared after
  \<^verbatim>\<open>hparams.boxcox = 0.1182\<close>.
\<close>

theorem inverse_boxcox_before_masking:
  "(run w manual_inference s = (completed, s', None) \<longrightarrow>
      (\<exists>m x y raw g g' masked.
           v_model s = Some m \<and> v_x s' = Some x \<and> v_y s' = Some y
         \<and> model_call w m x g = Inr (raw, g')
         \<and> mask_prediction raw y = Inr masked \<and> v_y_hat s' = Some masked))
   \<and> (run w boxcox_inference s = (completed, s', None) \<longrightarrow>
      (\<exists>m x y raw g g' hp v lmbda masked.
           v_model s = Some m \<and> v_x s' = Some x \<and> v_y s' = Some y
         \<and> model_call w m x g = Inr (raw, g')
         \<and> model_hparams w m = Inr hp \<and> hp ''boxcox'' = Some v \<and> as_number v = Inr lmbda
         \<and> mask_prediction (tmap (\<lambda>u. inv_boxcox w u lmbda) raw) y = Inr masked
         \<and> v_y_hat s' = Some masked))
   \<and> (\<exists>a b c ckpt.
        notebook_4_10 = a @ manual_inference @ b
          @ [SetHparam ''boxcox'' (PFloat 0.1182), SetHparam ''checkpoint_file'' ckpt]
          @ preparing_model @ boxcox_inference @ c
      \<and> filter (\<lambda>st. st = InvBoxcox \<or> (\<exists>v. st = SetHparam ''boxcox'' v))
               (a @ manual_inference @ b) = [])
   \<and> (\<exists>a b c ckpt.
        notebook_2_1 = a @ manual_inference @ b
          @ [SetHparam ''boxcox'' (PFloat 0.1182), SetHparam ''checkpoint_file'' ckpt]
          @ preparing_model @ boxcox_inference @ c
      \<and> filter (\<lambda>st. st = InvBoxcox \<or> (\<exists>v. st = SetHparam ''boxcox'' v))
               (a @ manual_inference @ b) = [])"
  using manual_inference_result [of w s completed s']
    boxcox_inference_result [of w s completed s']
    inference_cells_4_10 inference_cells_2_1
  by blast

lemmas example_eval =
  example_world_def fresh_kernel_def ebind_def raise_or_def var_def attr_def
  unsqueeze0_def mask_prediction_def index_put_bool_def isnan_def tmap_def numel_def
  upt_conv_Cons

theorem inverse_boxcox_before_masking_witness:
  "(\<exists>s'. run example_world manual_inference
            ((fresh_kernel example_generators)\<lparr>v_model := Some [''boxcox'' \<mapsto> PFloat 2]\<rparr>)
          = (manual_inference, s', None)
        \<and> v_y_hat s' = Some \<lparr>shape = [1, 1, 2, 2], entries = [NaN, Fin 7, Fin 4, Fin 10]\<rparr>)
   \<and> (\<exists>s'. run example_world boxcox_inference
            ((fresh_kernel example_generators)\<lparr>v_model := Some [''boxcox'' \<mapsto> PFloat 2]\<rparr>)
          = (boxcox_inference, s', None)
        \<and> v_y_hat s' = Some \<lparr>shape = [1, 1, 2, 2], entries = [NaN, Fin 15, Fin 9, Fin 21]\<rparr>)"
proof -
  let ?s = "(fresh_kernel example_generators)\<lparr>v_model := Some [''boxcox'' \<mapsto> PFloat 2]\<rparr>"
  obtain s1 where r1: "run example_world manual_inference ?s = (manual_inference, s1, None)"
    by (simp add: manual_inference_def example_eval)
  obtain s2 where r2: "run example_world boxcox_inference ?s = (boxcox_inference, s2, None)"
    by (simp add: boxcox_inference_def example_eval)
  from inverse_boxcox_before_masking [of example_world ?s manual_inference s1] r1
  have "v_y_hat s1 = Some \<lparr>shape = [1, 1, 2, 2], entries = [NaN, Fin 7, Fin 4, Fin 10]\<rparr>"
    using r1 by (auto simp: manual_inference_def example_eval)
  moreover
  from inverse_boxcox_before_masking [of example_world ?s boxcox_inference s2] r2
  have "v_y_hat s2 = Some \<lparr>shape = [1, 1, 2, 2], entries = [NaN, Fin 15, Fin 9, Fin 21]\<rparr>"
    using r2 by (auto simp: boxcox_inference_def example_eval)
  ultimately show ?thesis using r1 r2 by blast
qed

subsection \<open>Weights and evaluation mode before a forward pass\<close>

lemma run_shape:
  assumes "run w xs s = (completed, s', f)"
  shows "(f = None \<and> xs = completed)
       \<or> (\<exists>st e rest. f = Some (st, e) \<and> xs = completed @ st # rest
                       \<and> exec w st s' = Inl e)"
  using assms
proof (induction xs arbitrary: s completed)
  case Nil
  then show ?case by simp
next
  case (Cons x xs)
  show ?case
  proof (cases "exec w x s")
    case (Inl e)
    with Cons.prems show ?thesis by auto
  next
    case (Inr s1)
    with Cons.prems obtain c where c: "run w xs s1 = (c, s', f)" "completed = x # c"
      by (auto split: prod.splits)
    from Cons.IH [OF c(1)] c(2) show ?thesis by auto
  qed
qed












subsection \<open>Errors\<close>


lemma run_completed:
  assumes "run w xs s = (c, s', None)"
  shows "c = xs"
  using run_shape [OF assms] by simp







subsection \<open>Seeds\<close>












end
